theory Spec2Isabelle
  imports Main "HOL-Library.Sublist"
begin

section \<open>Text\<close>

text \<open>
  A Python \<open>str\<close> is a sequence of Unicode code points. A code point is a natural
  number; a string is a list of them. \<open>ascii\<close> reads an ASCII literal.
\<close>

type_synonym pystr = "nat list"

definition ascii :: "string \<Rightarrow> pystr" where
  "ascii cs = map of_char cs"

definition is_ascii :: "nat \<Rightarrow> bool" where
  "is_ascii c = (c < 128)"

definition ascii_isspace :: "nat \<Rightarrow> bool" where
  \<comment> \<open>\<open>\t \n \v \f \r\<close>, the separators \<open>\x1c\<close> to \<open>\x1f\<close>, and the space\<close>
  "ascii_isspace c = ((9 \<le> c \<and> c \<le> 13) \<or> (28 \<le> c \<and> c \<le> 32))"

definition ascii_isupper :: "nat \<Rightarrow> bool" where
  "ascii_isupper c = (65 \<le> c \<and> c \<le> 90)"

definition ascii_islower :: "nat \<Rightarrow> bool" where
  "ascii_islower c = (97 \<le> c \<and> c \<le> 122)"

definition ascii_isdigit :: "nat \<Rightarrow> bool" where
  "ascii_isdigit c = (48 \<le> c \<and> c \<le> 57)"

definition ascii_isalnum :: "nat \<Rightarrow> bool" where
  "ascii_isalnum c = (ascii_isdigit c \<or> ascii_isupper c \<or> ascii_islower c)"

definition ascii_lower :: "nat \<Rightarrow> nat" where
  "ascii_lower c = (if ascii_isupper c then c + 32 else c)"

definition ascii_upper :: "nat \<Rightarrow> nat" where
  "ascii_upper c = (if ascii_islower c then c - 32 else c)"

text \<open>
  Beyond ASCII, \<open>\s\<close>, \<open>\w\<close>, \<open>str.lower\<close>, \<open>str.title\<close> and case-insensitive
  matching read the interpreter's Unicode tables, which are not part of the script.
  They are a parameter of every function that uses them.
\<close>

record unicode =
  u_isspace :: "nat \<Rightarrow> bool"          \<comment> \<open>\<open>str.isspace\<close> of a code point from 128 on\<close>
  u_isalnum :: "nat \<Rightarrow> bool"          \<comment> \<open>\<open>str.isalnum\<close> of a code point from 128 on\<close>
  u_lower :: "pystr \<Rightarrow> pystr"         \<comment> \<open>\<open>str.lower\<close> of a string that is not pure ASCII\<close>
  u_title :: "pystr \<Rightarrow> pystr"         \<comment> \<open>\<open>str.title\<close> of a string that is not pure ASCII\<close>
  u_ignorecase :: "nat \<Rightarrow> nat \<Rightarrow> bool"
    \<comment> \<open>whether an ASCII letter of a pattern matches a code point from 128 on under \<open>re.IGNORECASE\<close>\<close>

definition isspace :: "unicode \<Rightarrow> nat \<Rightarrow> bool" where
  "isspace U c = (if is_ascii c then ascii_isspace c else u_isspace U c)"

definition isword :: "unicode \<Rightarrow> nat \<Rightarrow> bool" where
  \<comment> \<open>the class \<open>\w\<close> of a \<open>str\<close> pattern: alphanumeric, or the underscore\<close>
  "isword U c = (if is_ascii c then ascii_isalnum c \<or> c = 95 else u_isalnum U c)"

definition lower :: "unicode \<Rightarrow> pystr \<Rightarrow> pystr" where
  "lower U s = (if list_all is_ascii s then map ascii_lower s else u_lower U s)"

definition strip :: "unicode \<Rightarrow> pystr \<Rightarrow> pystr" where
  "strip U s = rev (dropWhile (isspace U) (rev (dropWhile (isspace U) s)))"

section \<open>Regular expressions\<close>

text \<open>
  The patterns of the script use literal characters, character classes, a class under
  \<open>+\<close>, and \<open>.*\<close>. \<open>rmatch eq p s\<close> is the length of the match of \<open>p\<close> at the start of
  \<open>s\<close>, found as the backtracking engine finds it: a repetition takes as much as it
  can and gives back one character at a time. \<open>eq\<close> compares a pattern character
  with a character of the text.
\<close>

datatype atom =
  Ch nat                      \<comment> \<open>a literal character\<close>
  | Any_star                  \<comment> \<open>\<open>.*\<close>: any characters but the newline\<close>
  | Set "nat \<Rightarrow> bool"          \<comment> \<open>one character of a class\<close>
  | Set_plus "nat \<Rightarrow> bool"     \<comment> \<open>one or more characters of a class\<close>

fun rmatch :: "(nat \<Rightarrow> nat \<Rightarrow> bool) \<Rightarrow> atom list \<Rightarrow> pystr \<Rightarrow> nat option" where
  "rmatch eq [] s = Some 0"
| "rmatch eq (Ch p # ps) [] = None"
| "rmatch eq (Ch p # ps) (c # cs) =
     (if eq p c then map_option Suc (rmatch eq ps cs) else None)"
| "rmatch eq (Set P # ps) [] = None"
| "rmatch eq (Set P # ps) (c # cs) =
     (if P c then map_option Suc (rmatch eq ps cs) else None)"
| "rmatch eq (Any_star # ps) [] = rmatch eq ps []"
| "rmatch eq (Any_star # ps) (c # cs) =
     (if c \<noteq> 10 then
        (case rmatch eq (Any_star # ps) cs of
           Some n \<Rightarrow> Some (Suc n)
         | None \<Rightarrow> rmatch eq ps (c # cs))
      else rmatch eq ps (c # cs))"
| "rmatch eq (Set_plus P # ps) [] = None"
| "rmatch eq (Set_plus P # ps) (c # cs) =
     (if P c then
        (case rmatch eq (Set_plus P # ps) cs of
           Some n \<Rightarrow> Some (Suc n)
         | None \<Rightarrow> map_option Suc (rmatch eq ps cs))
      else None)"

text \<open>
  \<open>subx m r s\<close> is the scan of \<open>re.sub\<close>: from left to right, a match at the current
  position is replaced by \<open>r\<close> of the matched text and the scan goes on after it; where
  there is no match the character is kept. No pattern of the script matches the empty
  string (\<open>patterns_nonempty\<close>), so a match has at least one character.
\<close>

fun subx :: "(pystr \<Rightarrow> nat option) \<Rightarrow> (pystr \<Rightarrow> pystr) \<Rightarrow> pystr \<Rightarrow> pystr" where
  "subx m r [] = []"
| "subx m r (c # cs) =
     (case m (c # cs) of
        Some (Suc n) \<Rightarrow> r (take (Suc n) (c # cs)) @ subx m r (drop n cs)
      | _ \<Rightarrow> c # subx m r cs)"

section \<open>Name transformers\<close>

definition hyphen_or_space :: "unicode \<Rightarrow> nat \<Rightarrow> bool" where
  \<comment> \<open>the class \<open>[-\s]\<close>\<close>
  "hyphen_or_space U c = (c = 45 \<or> isspace U c)"

definition underscore_or_space :: "unicode \<Rightarrow> nat \<Rightarrow> bool" where
  \<comment> \<open>the class \<open>[_\s]\<close>\<close>
  "underscore_or_space U c = (c = 95 \<or> isspace U c)"

definition not_word :: "unicode \<Rightarrow> nat \<Rightarrow> bool" where
  \<comment> \<open>the class \<open>[^\w]\<close>\<close>
  "not_word U c = (\<not> isword U c)"

definition not_word_or_hyphen :: "unicode \<Rightarrow> nat \<Rightarrow> bool" where
  \<comment> \<open>the class \<open>[^\w-]\<close>\<close>
  "not_word_or_hyphen U c = (\<not> (isword U c \<or> c = 45))"

definition to_snake_case :: "unicode \<Rightarrow> pystr \<Rightarrow> pystr" where
  "to_snake_case U name =
     (let name = subx (rmatch (=) [Set_plus (hyphen_or_space U)]) (\<lambda>_. ascii ''_'') name;
          name = subx (rmatch (=) [Set (not_word U)]) (\<lambda>_. []) name
      in lower U name)"

definition to_kebab_case :: "unicode \<Rightarrow> pystr \<Rightarrow> pystr" where
  "to_kebab_case U name =
     (let name = subx (rmatch (=) [Set_plus (underscore_or_space U)]) (\<lambda>_. ascii ''-'') name;
          name = subx (rmatch (=) [Set (not_word_or_hyphen U)]) (\<lambda>_. []) name
      in lower U name)"

section \<open>Exceptions\<close>

text \<open>
  Exceptions are values. \<open>KeyboardInterrupt\<close> is the one that is not an
  \<open>Exception\<close>, so \<open>except Exception\<close> lets it through.
\<close>

datatype exn =
  KeyboardInterrupt
  | EOFError
  | OSError pystr           \<comment> \<open>raised by a file operation or by the \<open>git\<close> subprocess\<close>
  | TemplateError pystr     \<comment> \<open>raised by \<open>re.sub\<close> for a replacement string it cannot compile\<close>

definition is_Exception :: "exn \<Rightarrow> bool" where
  "is_Exception e = (e \<noteq> KeyboardInterrupt)"

section \<open>Replacement strings\<close>

text \<open>
  \<open>re.sub\<close> compiles its replacement string before it scans: a backslash starts an
  escape. The patterns of the script have no group, so the only group a replacement
  can name is the whole match, \<open>\g<0>\<close>; \<open>\0\<close> and three octal digits are a character
  code; \<open>\a \b \f \n \r \t \v \\\<close> are the usual characters; a backslash before
  any other ASCII letter, before a group number, or at the end is an error; before any
  other character it stays. The whole match is named by zeros in ASCII digits, which
  is all that Python accepts from version 3.12 on; an older interpreter also takes,
  with a warning, every other text that \<open>int\<close> reads as zero. The message of the error
  says what kind it is; the escape and the position that the interpreter adds to it
  are left out.
\<close>

datatype part = Lit nat | Whole

definition isoct :: "nat \<Rightarrow> bool" where
  "isoct c = (48 \<le> c \<and> c \<le> 55)"

definition octal :: "pystr \<Rightarrow> nat" where
  "octal ds = foldl (\<lambda>v d. 8 * v + (d - 48)) 0 ds"

definition escapes :: "nat \<Rightarrow> nat option" where
  "escapes d =
     (if d = 97 then Some 7 else if d = 98 then Some 8 else if d = 102 then Some 12
      else if d = 110 then Some 10 else if d = 114 then Some 13 else if d = 116 then Some 9
      else if d = 118 then Some 11 else if d = 92 then Some 92 else None)"

definition prepend :: "part list \<Rightarrow> exn + part list \<Rightarrow> exn + part list" where
  "prepend ps r = (case r of Inl e \<Rightarrow> Inl e | Inr t \<Rightarrow> Inr (ps @ t))"

function parse_template :: "pystr \<Rightarrow> exn + part list" where
  "parse_template [] = Inr []"
| "parse_template (c # cs) =
     (if c \<noteq> 92 then prepend [Lit c] (parse_template cs)
      else
        (case cs of
           [] \<Rightarrow> Inl (TemplateError (ascii ''bad escape (end of pattern)''))
         | d # ds \<Rightarrow>
             if d = 103 then
               (case ds of
                  [] \<Rightarrow> Inl (TemplateError (ascii ''missing <''))
                | b # bs \<Rightarrow>
                    if b \<noteq> 60 then Inl (TemplateError (ascii ''missing <''))
                    else if dropWhile (\<lambda>x. x \<noteq> 62) bs = []
                    then Inl (TemplateError (ascii ''missing >, unterminated name''))
                    else if takeWhile (\<lambda>x. x \<noteq> 62) bs = []
                    then Inl (TemplateError (ascii ''missing group name''))
                    else if list_all (\<lambda>x. x = 48) (takeWhile (\<lambda>x. x \<noteq> 62) bs)
                    then prepend [Whole] (parse_template (tl (dropWhile (\<lambda>x. x \<noteq> 62) bs)))
                    else Inl (TemplateError (ascii ''invalid group reference'')))
             else if d = 48 then
               prepend [Lit (octal (takeWhile isoct (take 2 ds)))]
                 (parse_template (drop (length (takeWhile isoct (take 2 ds))) ds))
             else if ascii_isdigit d then
               (case ds of
                  d2 # d3 # ds3 \<Rightarrow>
                    if isoct d \<and> isoct d2 \<and> isoct d3 then
                      (if octal [d, d2, d3] > 255
                       then Inl (TemplateError (ascii ''octal escape value outside of range''))
                       else prepend [Lit (octal [d, d2, d3])] (parse_template ds3))
                    else Inl (TemplateError (ascii ''invalid group reference''))
                | _ \<Rightarrow> Inl (TemplateError (ascii ''invalid group reference'')))
             else
               (case escapes d of
                  Some x \<Rightarrow> prepend [Lit x] (parse_template ds)
                | None \<Rightarrow>
                    if ascii_isupper d \<or> ascii_islower d
                    then Inl (TemplateError (ascii ''bad escape''))
                    else prepend [Lit 92, Lit d] (parse_template ds))))"
  by pat_completeness auto
termination
proof (relation "measure length")
  show "wf (measure length)" by simp
next
  fix c :: nat and cs :: pystr and d ds b bs
  assume "cs = d # ds" "ds = b # bs"
  moreover have "length (dropWhile (\<lambda>x. x \<noteq> 62) bs) \<le> length bs"
    by (rule length_dropWhile_le)
  ultimately show "(tl (dropWhile (\<lambda>x. x \<noteq> 62) bs), c # cs) \<in> measure length"
    by simp
qed simp_all

definition expand :: "part list \<Rightarrow> pystr \<Rightarrow> pystr" where
  \<comment> \<open>the replacement for a match \<open>m\<close>\<close>
  "expand t m = concat (map (\<lambda>p. case p of Lit c \<Rightarrow> [c] | Whole \<Rightarrow> m) t)"

definition re_sub :: "(nat \<Rightarrow> nat \<Rightarrow> bool) \<Rightarrow> atom list \<Rightarrow> pystr \<Rightarrow> pystr \<Rightarrow> exn + pystr" where
  "re_sub eq pattern repl string =
     (case parse_template repl of
        Inl e \<Rightarrow> Inl e
      | Inr t \<Rightarrow> Inr (subx (rmatch eq pattern) (expand t) string))"

definition ignorecase :: "unicode \<Rightarrow> nat \<Rightarrow> nat \<Rightarrow> bool" where
  \<comment> \<open>a pattern character against a character of the text under \<open>re.IGNORECASE\<close>\<close>
  "ignorecase U p c =
     (if is_ascii c then ascii_lower c = ascii_lower p
      else (ascii_isupper p \<or> ascii_islower p) \<and> u_ignorecase U p c)"

section \<open>Titles\<close>

fun ascii_title :: "bool \<Rightarrow> pystr \<Rightarrow> pystr" where
  \<comment> \<open>the flag: the character before was a letter\<close>
  "ascii_title prev [] = []"
| "ascii_title prev (c # cs) =
     (if prev then ascii_lower c else ascii_upper c)
       # ascii_title (ascii_isupper c \<or> ascii_islower c) cs"

definition title :: "unicode \<Rightarrow> pystr \<Rightarrow> pystr" where
  "title U s = (if list_all is_ascii s then ascii_title False s else u_title U s)"

definition replace :: "nat \<Rightarrow> nat \<Rightarrow> pystr \<Rightarrow> pystr" where
  \<comment> \<open>\<open>str.replace\<close> of one character by another\<close>
  "replace old new s = map (\<lambda>c. if c = old then new else c) s"

section \<open>Paths, files, terminal\<close>

text \<open>
  A \<open>pathlib\<close> path on a POSIX system: the root (no slash, one slash, or the two
  slashes that POSIX keeps apart) and the components. Empty components and \<open>.\<close> are
  dropped when a string is parsed, and joining an absolute path discards what stood
  before it.
\<close>

record path =
  root :: nat
  parts :: "pystr list"

fun split_on :: "nat \<Rightarrow> pystr \<Rightarrow> pystr list" where
  "split_on d [] = [[]]"
| "split_on d (c # cs) =
     (if c = d then [] # split_on d cs
      else (case split_on d cs of [] \<Rightarrow> [[c]] | w # ws \<Rightarrow> (c # w) # ws))"

definition Path :: "pystr \<Rightarrow> path" where
  "Path s =
     (let k = length (takeWhile (\<lambda>c. c = 47) s)
      in \<lparr>root = (if k = 2 then 2 else min k 1),
          parts = filter (\<lambda>p. p \<noteq> [] \<and> p \<noteq> ascii ''.'') (split_on 47 s)\<rparr>)"

definition joinpath :: "path \<Rightarrow> pystr \<Rightarrow> path" where
  \<comment> \<open>the operator \<open>/\<close> of \<open>pathlib\<close>\<close>
  "joinpath p s =
     (let q = Path s
      in if root q \<noteq> 0 then q else \<lparr>root = root p, parts = parts p @ parts q\<rparr>)"

text \<open>
  The file system is the list of the paths that exist, each a directory or a file
  with its text.
\<close>

datatype node = Dir | File pystr

type_synonym filesystem = "(path \<times> node) list"

definition under :: "path \<Rightarrow> path \<Rightarrow> bool" where
  \<comment> \<open>\<open>p\<close> is \<open>a\<close> or lies below it\<close>
  "under a p = (root p = root a \<and> prefix (parts a) (parts p))"

definition move_tree :: "filesystem \<Rightarrow> path \<Rightarrow> path \<Rightarrow> filesystem" where
  "move_tree files a b =
     map (\<lambda>(p, n).
            (if under a p
             then \<lparr>root = root b, parts = parts b @ drop (length (parts a)) (parts p)\<rparr>
             else p, n)) files"

definition remove_tree :: "filesystem \<Rightarrow> path \<Rightarrow> filesystem" where
  "remove_tree files a = filter (\<lambda>(p, n). \<not> under a p) files"

fun put :: "filesystem \<Rightarrow> path \<Rightarrow> node \<Rightarrow> filesystem" where
  "put [] p n = [(p, n)]"
| "put ((q, m) # files) p n = (if q = p then (p, n) # files else (q, m) # put files p n)"

text \<open>
  What the operating system may refuse (permissions, a name that is too long, a full
  disk, a missing \<open>git\<close>) is outside the script: \<open>refused w call\<close> is the error text
  when it refuses \<open>call\<close>. A refused call is taken to leave the files as they were.
  \<open>Stat p\<close> is the question whether \<open>p\<close> is there; that there is no such file is an
  answer to it, not a refusal. Printing is taken to succeed.
\<close>

datatype syscall =
  Stat path
  | Move path path
  | Read_text path
  | Write_text path
  | Rmtree path
  | Git_init
  | Unlink path

datatype event = Line pystr | Interrupt

text \<open>
  A printed line is kept as the parts of its f-string: literal text, and the paths and
  exceptions interpolated into it.
\<close>

datatype piece = S pystr | P path | E exn

record world =
  fs :: filesystem
  stdin :: "event list"           \<comment> \<open>what the user will type, line by line\<close>
  stdout :: "piece list list"     \<comment> \<open>the lines printed so far\<close>
  refused :: "syscall \<Rightarrow> pystr option"
  script_path :: path             \<comment> \<open>\<open>Path(__file__)\<close>\<close>

type_synonym 'a io = "world \<Rightarrow> (exn + 'a) \<times> world"

definition print :: "piece list \<Rightarrow> world \<Rightarrow> world" where
  "print line w = w\<lparr>stdout := stdout w @ [line]\<rparr>"

definition py_input :: "piece list \<Rightarrow> pystr io" where
  \<comment> \<open>\<open>input(prompt)\<close>: the prompt is written, then a line is read\<close>
  "py_input prompt w =
     (let w = print prompt w
      in case stdin w of
           [] \<Rightarrow> (Inl EOFError, w)
         | Interrupt # rest \<Rightarrow> (Inl KeyboardInterrupt, w\<lparr>stdin := rest\<rparr>)
         | Line l # rest \<Rightarrow> (Inr l, w\<lparr>stdin := rest\<rparr>))"

definition Path_exists :: "path \<Rightarrow> bool io" where
  \<comment> \<open>the method \<open>exists\<close> of a path: it asks for the status of the path, answers \<open>False\<close>
      when there is no such file, and lets any other error of the operating system out\<close>
  "Path_exists p w =
     (case refused w (Stat p) of
        Some msg \<Rightarrow> (Inl (OSError msg), w)
      | None \<Rightarrow> (Inr (map_of (fs w) p \<noteq> None), w))"

definition exists :: "world \<Rightarrow> path \<Rightarrow> bool" where
  \<comment> \<open>in \<open>w\<close> the call \<open>p.exists()\<close> returns \<open>True\<close>\<close>
  "exists w p = (fst (Path_exists p w) = Inr True)"

definition absent :: "world \<Rightarrow> path \<Rightarrow> bool" where
  \<comment> \<open>in \<open>w\<close> the call \<open>p.exists()\<close> returns \<open>False\<close>\<close>
  "absent w p = (fst (Path_exists p w) = Inr False)"

definition shutil_move :: "path \<Rightarrow> path \<Rightarrow> unit io" where
  \<comment> \<open>\<open>shutil.move\<close> to a destination that is not there, as the script calls it\<close>
  "shutil_move a b w =
     (case refused w (Move a b) of
        Some msg \<Rightarrow> (Inl (OSError msg), w)
      | None \<Rightarrow>
          (case map_of (fs w) a of
             None \<Rightarrow> (Inl (OSError (ascii ''No such file or directory'')), w)
           | Some (File text) \<Rightarrow> (Inr (), w\<lparr>fs := move_tree (fs w) a b\<rparr>)
           | Some Dir \<Rightarrow>
               if under a b
               then (Inl (OSError (ascii ''Cannot move a directory into itself'')), w)
               else (Inr (), w\<lparr>fs := move_tree (fs w) a b\<rparr>)))"

fun universal_newlines :: "pystr \<Rightarrow> pystr" where
  \<comment> \<open>reading in text mode: \<open>\r\n\<close> and \<open>\r\<close> come out as \<open>\n\<close>\<close>
  "universal_newlines [] = []"
| "universal_newlines [c] = [if c = 13 then 10 else c]"
| "universal_newlines (c # d # cs) =
     (if c = 13 \<and> d = 10 then 10 # universal_newlines cs
      else if c = 13 then 10 # universal_newlines (d # cs)
      else c # universal_newlines (d # cs))"

definition read_text :: "path \<Rightarrow> pystr io" where
  "read_text p w =
     (case refused w (Read_text p) of
        Some msg \<Rightarrow> (Inl (OSError msg), w)
      | None \<Rightarrow>
          (case map_of (fs w) p of
             Some (File text) \<Rightarrow> (Inr (universal_newlines text), w)
           | Some Dir \<Rightarrow> (Inl (OSError (ascii ''Is a directory'')), w)
           | None \<Rightarrow> (Inl (OSError (ascii ''No such file or directory'')), w)))"

definition write_text :: "path \<Rightarrow> pystr \<Rightarrow> unit io" where
  "write_text p text w =
     (case refused w (Write_text p) of
        Some msg \<Rightarrow> (Inl (OSError msg), w)
      | None \<Rightarrow>
          (case map_of (fs w) p of
             Some Dir \<Rightarrow> (Inl (OSError (ascii ''Is a directory'')), w)
           | _ \<Rightarrow> (Inr (), w\<lparr>fs := put (fs w) p (File text)\<rparr>)))"

definition shutil_rmtree :: "path \<Rightarrow> unit io" where
  "shutil_rmtree p w =
     (case refused w (Rmtree p) of
        Some msg \<Rightarrow> (Inl (OSError msg), w)
      | None \<Rightarrow>
          (case map_of (fs w) p of
             Some Dir \<Rightarrow> (Inr (), w\<lparr>fs := remove_tree (fs w) p\<rparr>)
           | Some (File text) \<Rightarrow> (Inl (OSError (ascii ''Not a directory'')), w)
           | None \<Rightarrow> (Inl (OSError (ascii ''No such file or directory'')), w)))"

definition git_init :: "unit io" where
  \<comment> \<open>\<open>subprocess.run(["git", "init"], check=True, capture_output=True)\<close>\<close>
  "git_init w =
     (case refused w Git_init of
        Some msg \<Rightarrow> (Inl (OSError msg), w)
      | None \<Rightarrow>
          (Inr (), if map_of (fs w) (Path (ascii ''.git'')) \<noteq> None then w
                   else w\<lparr>fs := fs w @ [(Path (ascii ''.git''), Dir)]\<rparr>))"

definition unlink :: "path \<Rightarrow> unit io" where
  "unlink p w =
     (case refused w (Unlink p) of
        Some msg \<Rightarrow> (Inl (OSError msg), w)
      | None \<Rightarrow>
          (case map_of (fs w) p of
             Some (File text) \<Rightarrow> (Inr (), w\<lparr>fs := filter (\<lambda>(q, n). q \<noteq> p) (fs w)\<rparr>)
           | Some Dir \<Rightarrow> (Inl (OSError (ascii ''Is a directory'')), w)
           | None \<Rightarrow> (Inl (OSError (ascii ''No such file or directory'')), w)))"

section \<open>The script\<close>

definition cross :: pystr where
  "cross = [0x274C]"

definition check_mark :: pystr where
  "check_mark = [0x2713]"

definition warning_sign :: pystr where
  "warning_sign = [0x26A0, 0xFE0F]"

definition arrow :: pystr where
  "arrow = [0x2192]"

definition rule :: pystr where
  \<comment> \<open>\<open>"=" * 60\<close>\<close>
  "rule = replicate 60 61"

definition print_all :: "piece list list \<Rightarrow> world \<Rightarrow> world" where
  \<comment> \<open>consecutive calls of \<open>print\<close>\<close>
  "print_all ls w = fold print ls w"

subsection \<open>\<open>get_user_input\<close>\<close>

function ask_project_name :: "unicode \<Rightarrow> pystr io" where
  \<comment> \<open>the loop \<open>while True\<close> of \<open>get_user_input\<close>\<close>
  "ask_project_name U w =
     (case py_input [S (ascii ''Enter your project name (e.g., 'My GenAI App'): '')] w of
        (Inl e, w) \<Rightarrow> (Inl e, w)
      | (Inr l, w) \<Rightarrow>
          (let project_name = strip U l
           in if project_name \<noteq> [] then (Inr project_name, w)
              else ask_project_name U
                     (print [S (ascii ''Project name cannot be empty!'')] w)))"
  by pat_completeness auto
termination
  by (relation "measure (\<lambda>(U, w). length (stdin w))")
    (auto simp: py_input_def print_def Let_def split: list.splits event.splits)

declare ask_project_name.simps [simp del]

definition get_user_input :: "unicode \<Rightarrow> (pystr \<times> pystr \<times> pystr \<times> pystr) io" where
  "get_user_input U w =
     (let w = print_all
                [[S rule], [S (ascii ''Python GenAI Template Initialization'')], [S rule], []] w
      in case ask_project_name U w of
        (Inl e, w) \<Rightarrow> (Inl e, w)
      | (Inr project_name, w) \<Rightarrow>
     (let package_name = to_snake_case U project_name;
          pyproject_name = to_kebab_case U project_name;
          w = print_all [[], [S (ascii ''Suggested package name (Python): ''), S package_name]] w
      in case py_input [S (ascii ''Press Enter to use ''), S [39], S package_name, S [39],
                        S (ascii '' or enter a different name: '')] w of
        (Inl e, w) \<Rightarrow> (Inl e, w)
      | (Inr l, w) \<Rightarrow>
     (let package_name_input = strip U l;
          package_name =
            (if package_name_input \<noteq> [] then to_snake_case U package_name_input
             else package_name);
          w = print_all
                [[], [S (ascii ''Suggested project name (pyproject.toml): ''), S pyproject_name]] w
      in case py_input [S (ascii ''Press Enter to use ''), S [39], S pyproject_name, S [39],
                        S (ascii '' or enter a different name: '')] w of
        (Inl e, w) \<Rightarrow> (Inl e, w)
      | (Inr l, w) \<Rightarrow>
     (let pyproject_name_input = strip U l;
          pyproject_name =
            (if pyproject_name_input \<noteq> [] then to_kebab_case U pyproject_name_input
             else pyproject_name);
          w = print [] w
      in case py_input [S (ascii ''Enter your name (for pyproject.toml): '')] w of
        (Inl e, w) \<Rightarrow> (Inl e, w)
      | (Inr l, w) \<Rightarrow>
     (let author_name = (if strip U l \<noteq> [] then strip U l else ascii ''Your Name'')
      in case py_input [S (ascii ''Enter your email (for pyproject.toml): '')] w of
        (Inl e, w) \<Rightarrow> (Inl e, w)
      | (Inr l, w) \<Rightarrow>
     (let author_email =
            (if strip U l \<noteq> [] then strip U l else ascii ''your.email@example.com'')
      in (Inr (package_name, pyproject_name, author_name, author_email), w)))))))"

subsection \<open>\<open>rename_package\<close>\<close>

definition rename_package :: "pystr \<Rightarrow> pystr \<Rightarrow> bool io" where
  "rename_package old_name new_name w =
     (let old_path = joinpath (Path (ascii ''src'')) old_name;
          new_path = joinpath (Path (ascii ''src'')) new_name
      in case Path_exists old_path w of
           (Inl e, w) \<Rightarrow> (Inl e, w)
         | (Inr old_found, w) \<Rightarrow>
      if \<not> old_found
      then (Inr False,
            print [S (cross @ ascii '' Package directory not found: ''), P old_path] w)
      else
        (case Path_exists new_path w of
           (Inl e, w) \<Rightarrow> (Inl e, w)
         | (Inr new_found, w) \<Rightarrow>
      if new_found
      then (Inr False,
            print [S (cross @ ascii '' Target directory already exists: ''), P new_path] w)
      else
        (case shutil_move old_path new_path w of
           (Inr u, w) \<Rightarrow>
             (Inr True,
              print [S (check_mark @ ascii '' Renamed package: ''), S old_name,
                     S (ascii '' '' @ arrow @ ascii '' ''), S new_name] w)
         | (Inl e, w) \<Rightarrow>
             if is_Exception e
             then (Inr False,
                   print [S (cross @ ascii '' Failed to rename package: ''), E e] w)
             else (Inl e, w))))"

subsection \<open>\<open>update_pyproject_toml\<close>\<close>

definition name_pattern :: "atom list" where
  \<open>name_pattern = map Ch (ascii ''name = "template-package"'')\<close>

definition description_pattern :: "atom list" where
  \<comment> \<open>\<open>description = ".*template.*"\<close>\<close>
  \<open>description_pattern =
     map Ch (ascii ''description = "'') @ [Any_star] @ map Ch (ascii ''template'')
       @ [Any_star] @ map Ch (ascii ''"'')\<close>

definition author_pattern :: "atom list" where
  \<open>author_pattern = map Ch (ascii ''name = "Your Name"'')\<close>

definition email_pattern :: "atom list" where
  \<comment> \<open>\<open>email = "your\.email@example\.com"\<close>\<close>
  \<open>email_pattern = map Ch (ascii ''email = "your.email@example.com"'')\<close>

definition substitutions :: "unicode \<Rightarrow> pystr \<Rightarrow> pystr \<Rightarrow> pystr \<Rightarrow> pystr \<Rightarrow> exn + pystr" where
  \<comment> \<open>the four calls of \<open>re.sub\<close>, in their order\<close>
  \<open>substitutions U project_name author_name author_email content =
     (case re_sub (=) name_pattern
             (ascii ''name = "'' @ project_name @ ascii ''"'') content of
        Inl e \<Rightarrow> Inl e
      | Inr content \<Rightarrow>
     (case re_sub (ignorecase U) description_pattern
             (ascii ''description = "'' @ project_name @ ascii '' - A GenAI application"'')
             content of
        Inl e \<Rightarrow> Inl e
      | Inr content \<Rightarrow>
     (case re_sub (=) author_pattern
             (ascii ''name = "'' @ author_name @ ascii ''"'') content of
        Inl e \<Rightarrow> Inl e
      | Inr content \<Rightarrow>
        re_sub (=) email_pattern
          (ascii ''email = "'' @ author_email @ ascii ''"'') content)))\<close>

definition update_pyproject_toml ::
  "unicode \<Rightarrow> pystr \<Rightarrow> pystr \<Rightarrow> pystr \<Rightarrow> pystr \<Rightarrow> bool io" where
  "update_pyproject_toml U package_name project_name author_name author_email w =
     (let pyproject_path = Path (ascii ''pyproject.toml'')
      in case Path_exists pyproject_path w of
           (Inl e, w) \<Rightarrow> (Inl e, w)
         | (Inr found, w) \<Rightarrow>
         if \<not> found
         then (Inr False, print [S (cross @ ascii '' pyproject.toml not found!'')] w)
         else
           (case
              (case read_text pyproject_path w of
                 (Inl e, w) \<Rightarrow> (Inl e, w)
               | (Inr content, w) \<Rightarrow>
                   (case substitutions U project_name author_name author_email content of
                      Inl e \<Rightarrow> (Inl e, w)
                    | Inr content \<Rightarrow>
                        (case write_text pyproject_path content w of
                           (Inl e, w) \<Rightarrow> (Inl e, w)
                         | (Inr u, w) \<Rightarrow>
                             (Inr True,
                              print [S (check_mark @ ascii '' Updated pyproject.toml'')] w))))
            of
              (Inr r, w) \<Rightarrow> (Inr r, w)
            | (Inl e, w) \<Rightarrow>
                if is_Exception e
                then (Inr False,
                      print [S (cross @ ascii '' Failed to update pyproject.toml: ''), E e] w)
                else (Inl e, w)))"

subsection \<open>\<open>update_package_init\<close>\<close>

definition init_content :: "unicode \<Rightarrow> pystr \<Rightarrow> pystr" where
  \<comment> \<open>the f-string written to \<open>__init__.py\<close>; 10 is the newline\<close>
  \<open>init_content U package_name =
     ascii ''"""'' @ [10]
     @ title U (replace 95 32 package_name) @ [10]
     @ [10]
     @ ascii ''Your GenAI application package.'' @ [10]
     @ ascii ''"""'' @ [10]
     @ [10]
     @ ascii ''__version__ = "0.1.0"'' @ [10]
     @ [10]
     @ ascii ''__all__ = ["__version__"]'' @ [10]\<close>

definition marker_path :: "pystr \<Rightarrow> path" where
  \<comment> \<open>\<open>Path("src") / package_name / "__init__.py"\<close>\<close>
  "marker_path package_name =
     joinpath (joinpath (Path (ascii ''src'')) package_name) (ascii ''__init__.py'')"

definition update_package_init :: "unicode \<Rightarrow> pystr \<Rightarrow> bool io" where
  "update_package_init U package_name w =
     (let init_path = marker_path package_name
      in case Path_exists init_path w of
           (Inl e, w) \<Rightarrow> (Inl e, w)
         | (Inr found, w) \<Rightarrow>
         if \<not> found
         then (Inr True,
               print [S (warning_sign @ ascii ''  Warning: ''), P init_path, S (ascii '' not found'')] w)
         else
           (case write_text init_path (init_content U package_name) w of
              (Inr u, w) \<Rightarrow>
                (Inr True,
                 print [S (check_mark @ ascii '' Updated ''), S package_name,
                        S (ascii ''/__init__.py'')] w)
            | (Inl e, w) \<Rightarrow>
                if is_Exception e
                then (Inr True,
                      print [S (warning_sign @ ascii ''  Warning: Failed to update __init__.py: ''),
                             E e] w)
                else (Inl e, w)))"

subsection \<open>\<open>reinit_git\<close>\<close>

definition reinit_git :: "unicode \<Rightarrow> bool io" where
  "reinit_git U w =
     (case py_input [S (ascii ''Reinitialize git repository? (removes old history) [y/N]: '')]
             (print [] w) of
        (Inl e, w) \<Rightarrow> (Inl e, w)
      | (Inr l, w) \<Rightarrow>
          (let response = lower U (strip U l)
           in if response = ascii ''y'' \<or> response = ascii ''yes'' then
                (case
                   (let git_dir = Path (ascii ''.git'')
                    in case (case Path_exists git_dir w of
                               (Inl e, w) \<Rightarrow> (Inl e, w)
                             | (Inr found, w) \<Rightarrow>
                             if found
                             then (case shutil_rmtree git_dir w of
                                     (Inl e, w) \<Rightarrow> (Inl e, w)
                                   | (Inr u, w) \<Rightarrow>
                                       (Inr (),
                                        print [S (check_mark @ ascii '' Removed old .git directory'')] w))
                             else (Inr (), w)) of
                         (Inl e, w) \<Rightarrow> (Inl e, w)
                       | (Inr u, w) \<Rightarrow>
                           (case git_init w of
                              (Inl e, w) \<Rightarrow> (Inl e, w)
                            | (Inr u, w) \<Rightarrow>
                                (Inr True,
                                 print [S (check_mark @ ascii '' Initialized new git repository'')] w)))
                 of
                   (Inr r, w) \<Rightarrow> (Inr r, w)
                 | (Inl e, w) \<Rightarrow>
                     if is_Exception e
                     then (Inr False,
                           print [S (warning_sign @ ascii ''  Warning: Git reinitialization failed: ''),
                                  E e] w)
                     else (Inl e, w))
              else (Inr True, w)))"

subsection \<open>\<open>remove_self\<close>\<close>

definition path_name :: "path \<Rightarrow> pystr" where
  \<comment> \<open>the attribute \<open>name\<close>: the last component\<close>
  "path_name p = (if parts p = [] then [] else last (parts p))"

definition remove_self :: "unit io" where
  "remove_self w =
     (case unlink (script_path w) w of
        (Inr u, w) \<Rightarrow>
          (Inr (),
           print [S (check_mark @ ascii '' Removed initialization script: ''),
                  S (path_name (script_path w))] w)
      | (Inl e, w) \<Rightarrow>
          if is_Exception e
          then (Inr (), print [S (warning_sign @ ascii ''  Warning: Could not remove script: ''), E e] w)
          else (Inl e, w))"

subsection \<open>\<open>main\<close>\<close>

definition summary :: "pystr \<Rightarrow> pystr \<Rightarrow> pystr \<Rightarrow> pystr \<Rightarrow> piece list list" where
  \<comment> \<open>the lines printed before the confirmation\<close>
  "summary package_name project_name author_name author_email =
     [[], [S rule], [S (ascii ''Configuration Summary:'')], [S rule],
      [S (ascii ''Package name: ''), S package_name],
      [S (ascii ''Project name: ''), S project_name],
      [S (ascii ''Author: ''), S author_name, S (ascii '' <''), S author_email, S (ascii ''>'')],
      [S rule], []]"

definition next_steps :: "piece list list" where
  "next_steps =
     [[], [S rule], [S (check_mark @ ascii '' Template initialized successfully!'')], [S rule], [],
      [S (ascii ''Next steps:'')],
      [S (ascii ''  1. Run: uv venv && uv pip install -e '') , S [39], S (ascii ''.[dev]''), S [39]],
      [S (ascii ''  2. Run: uv run pre-commit-install'')],
      [S (ascii ''  3. Copy .env.example to .env and add your API keys'')],
      [S (ascii ''  4. Start building your GenAI application!'')],
      []]"

definition completed_with_errors :: "piece list list" where
  "completed_with_errors =
     [[], [S rule], [S (cross @ ascii '' Initialization completed with errors'')], [S rule],
      [S (ascii ''Please review the errors above and fix manually if needed.'')]]"

definition main :: "unicode \<Rightarrow> int io" where
  "main U w =
     (case Path_exists (Path (ascii ''pyproject.toml'')) w of
        (Inl e, w) \<Rightarrow> (Inl e, w)
      | (Inr found, w) \<Rightarrow>
      if \<not> found
      then (Inr 1,
            print_all [[S (cross @ ascii '' Error: pyproject.toml not found!'')],
                       [S (ascii ''Please run this script from the template root directory.'')]] w)
      else
     (case get_user_input U w of
        (Inl e, w) \<Rightarrow> (Inl e, w)
      | (Inr (package_name, project_name, author_name, author_email), w) \<Rightarrow>
     (case py_input [S (ascii ''Proceed with these settings? [Y/n]: '')]
             (print_all (summary package_name project_name author_name author_email) w) of
        (Inl e, w) \<Rightarrow> (Inl e, w)
      | (Inr l, w) \<Rightarrow>
     (let response = lower U (strip U l)
      in if response = ascii ''n'' \<or> response = ascii ''no''
         then (Inr 0, print [S (ascii ''Aborted.'')] w)
         else
     (let w = print_all [[], [S (ascii ''Initializing template...'')], []] w;
          success = True
      in case rename_package (ascii ''template_package'') package_name w of
        (Inl e, w) \<Rightarrow> (Inl e, w)
      | (Inr r, w) \<Rightarrow>
     (let success = (success \<and> r)
      in case update_pyproject_toml U package_name project_name author_name author_email w of
        (Inl e, w) \<Rightarrow> (Inl e, w)
      | (Inr r, w) \<Rightarrow>
     (let success = (success \<and> r)
      in case update_package_init U package_name w of
        (Inl e, w) \<Rightarrow> (Inl e, w)
      | (Inr r, w) \<Rightarrow>
     (let success = (success \<and> r)
      in case reinit_git U w of
        (Inl e, w) \<Rightarrow> (Inl e, w)
      | (Inr r, w) \<Rightarrow>
     (let success = (success \<and> r)
      in if success then
           (case py_input [S (ascii ''Remove this initialization script? [Y/n]: '')]
                   (print_all next_steps w) of
              (Inl e, w) \<Rightarrow> (Inl e, w)
            | (Inr l, w) \<Rightarrow>
                (let response = lower U (strip U l)
                 in if \<not> (response = ascii ''n'' \<or> response = ascii ''no'')
                    then (case remove_self w of
                            (Inl e, w) \<Rightarrow> (Inl e, w)
                          | (Inr u, w) \<Rightarrow> (Inr 0, w))
                    else (Inr 0, w)))
         else (Inr 1, print_all completed_with_errors w))))))))))"

definition run_script :: "unicode \<Rightarrow> world \<Rightarrow> int \<times> world" where
  \<comment> \<open>the block under \<open>if __name__ == "__main__"\<close>: the exit code of the process\<close>
  "run_script U w =
     (case main U w of
        (Inr code, w) \<Rightarrow> (code, w)
      | (Inl e, w) \<Rightarrow>
          if e = KeyboardInterrupt
          then (1, print [S ([10, 10] @ ascii ''Aborted by user.'')] w)
          else (1, print [S ([10] @ cross @ ascii '' Unexpected error: ''), E e] w))"

section \<open>A template directory and a session\<close>

text \<open>
  Concrete inputs for the evaluations below: Unicode tables that hold the rows of
  U+0130 (LATIN CAPITAL LETTER I WITH DOT ABOVE: alphanumeric, lowercased to \<open>i\<close>
  followed by U+0307, equal to \<open>i\<close> when case is ignored) and of U+0307 (COMBINING
  DOT ABOVE: a mark, neither alphanumeric nor white space) and read every other code
  point beyond ASCII as a caseless symbol; the files of a fresh template; and a
  session in which the user types the given lines and the operating system refuses
  nothing.
\<close>

definition tables_0130 :: unicode where
  "tables_0130 =
     \<lparr>u_isspace = (\<lambda>c. False),
      u_isalnum = (\<lambda>c. c = 0x130),
      u_lower = (\<lambda>s. concat (map (\<lambda>c. if c = 0x130 then [0x69, 0x307] else [ascii_lower c]) s)),
      u_title = (\<lambda>s. s),
      u_ignorecase = (\<lambda>p c. c = 0x130 \<and> ascii_lower p = 0x69)\<rparr>"

text \<open>
  Tables that hold the rows of U+00C9 (LATIN CAPITAL LETTER E WITH ACUTE: alphanumeric,
  lowercased to U+00E9) and of U+00E9 (LATIN SMALL LETTER E WITH ACUTE: alphanumeric,
  its own lowercase) and read every other code point beyond ASCII as a caseless
  symbol; and a name written with these two letters, \<open>Cafe Ete\<close> with its three
  accents.
\<close>

definition lower_00c9 :: "nat \<Rightarrow> nat" where
  "lower_00c9 c = (if c = 0xC9 then 0xE9 else ascii_lower c)"

definition tables_00e9 :: unicode where
  "tables_00e9 =
     \<lparr>u_isspace = (\<lambda>c. False),
      u_isalnum = (\<lambda>c. c = 0xC9 \<or> c = 0xE9),
      u_lower = map lower_00c9,
      u_title = (\<lambda>s. s),
      u_ignorecase = (\<lambda>p c. False)\<rparr>"

definition cafe_ete :: pystr where
  "cafe_ete = ascii ''Caf'' @ [0xE9] @ ascii '' '' @ [0xC9] @ ascii ''t'' @ [0xE9]"

definition pyproject_text :: pystr where
  \<open>pyproject_text =
     ascii ''name = "template-package"'' @ [10]
     @ ascii ''description = "A Python GenAI template"'' @ [10]
     @ ascii ''authors = [{name = "Your Name", email = "your.email@example.com"}]'' @ [10]\<close>

definition template_files :: filesystem where
  "template_files =
     [(Path (ascii ''pyproject.toml''), File pyproject_text),
      (Path (ascii ''src''), Dir),
      (Path (ascii ''src/template_package''), Dir),
      (Path (ascii ''src/template_package/__init__.py''), File []),
      (Path (ascii ''.git''), Dir),
      (Path (ascii ''init_template.py''), File [])]"

definition session :: "pystr list \<Rightarrow> world" where
  "session ls =
     \<lparr>fs = template_files, stdin = map Line ls, stdout = [],
      refused = (\<lambda>c. None), script_path = Path (ascii ''init_template.py'')\<rparr>"




section \<open>The characters of an identifier and of a slug\<close>

text \<open>
  The lowercase ASCII letters, the digits and the underscore; and the same with the
  hyphen in place of the underscore. For any tables, a lowercase word character is a
  word character that \<open>str.lower\<close> leaves as it is.
\<close>

definition lower_word :: "unicode \<Rightarrow> nat \<Rightarrow> bool" where
  \<comment> \<open>a word character that \<open>str.lower\<close> leaves as it is\<close>
  "lower_word U c = (isword U c \<and> lower U [c] = [c])"

definition identifier_char :: "nat \<Rightarrow> bool" where
  \<comment> \<open>\<open>[a-z0-9_]\<close>\<close>
  "identifier_char c = (ascii_islower c \<or> ascii_isdigit c \<or> c = 95)"

definition slug_char :: "nat \<Rightarrow> bool" where
  \<comment> \<open>\<open>[a-z0-9-]\<close>\<close>
  "slug_char c = (ascii_islower c \<or> ascii_isdigit c \<or> c = 45)"

section \<open>Parts of the world\<close>

text \<open>
  \<open>machine\<close> is everything of the world but the terminal: the files, what the operating
  system refuses and the path of the script. \<open>console\<close> is everything but the files and
  what has been printed.
\<close>

definition machine :: "world \<Rightarrow> filesystem \<times> (syscall \<Rightarrow> pystr option) \<times> path" where
  "machine w = (fs w, refused w, script_path w)"

definition console :: "world \<Rightarrow> event list \<times> (syscall \<Rightarrow> pystr option) \<times> path" where
  "console w = (stdin w, refused w, script_path w)"

text \<open>
  \<open>git_fails w\<close>: in \<open>w\<close> the reinitialization of git cannot go through, because the
  old \<open>.git\<close> directory is there and its removal is refused, or because \<open>git init\<close> is.
\<close>

definition git_fails :: "world \<Rightarrow> bool" where
  "git_fails w =
     ((exists w (Path (ascii ''.git'')) \<and> refused w (Rmtree (Path (ascii ''.git''))) \<noteq> None)
      \<or> refused w Git_init \<noteq> None)"

text \<open>
  A machine without the \<open>git\<close> executable, and the answers of a user who names the
  project \<open>My GenAI App\<close>, keeps every default and says yes to every question.
\<close>

definition no_git :: "syscall \<Rightarrow> pystr option" where
  "no_git call = (if call = Git_init then Some (ascii ''No such file or directory: 'git' '') else None)"

definition all_yes :: "pystr list" where
  "all_yes = [ascii ''My GenAI App'', [], [], [], [], ascii ''y'', ascii ''y'', ascii ''y'']"

section \<open>The scenario of the specification\<close>

lemmas ascii_tables =
  is_ascii_def ascii_isspace_def ascii_isupper_def ascii_islower_def ascii_isdigit_def
  ascii_isalnum_def ascii_lower_def ascii_upper_def

lemmas char_classes =
  isspace_def isword_def hyphen_or_space_def underscore_or_space_def not_word_def
  not_word_or_hyphen_def

text \<open>
  C2. For the input \<open>My GenAI App\<close>, \<open>to_snake_case\<close> returns exactly
  \<open>my_genai_app\<close> and \<open>to_kebab_case\<close> returns exactly \<open>my-genai-app\<close>. The input
  is ASCII, so the result is the same whatever the Unicode tables are.
\<close>

theorem scenario_my_genai_app:
  "to_snake_case U (ascii ''My GenAI App'') = ascii ''my_genai_app'' \<and>
   to_kebab_case U (ascii ''My GenAI App'') = ascii ''my-genai-app''"
  by (simp add: to_snake_case_def to_kebab_case_def ascii_def lower_def char_classes ascii_tables)

section \<open>Printing leaves the files alone\<close>

lemma fs_print [simp]: "fs (print l w) = fs w"
  by (simp add: print_def)

lemma fs_print_all [simp]: "fs (print_all ls w) = fs w"
  unfolding print_all_def by (induction ls arbitrary: w) simp_all

lemma refused_print [simp]: "refused (print l w) = refused w"
  by (simp add: print_def)

lemma refused_print_all [simp]: "refused (print_all ls w) = refused w"
  unfolding print_all_def by (induction ls arbitrary: w) simp_all

lemma exists_iff: "exists w p \<longleftrightarrow> refused w (Stat p) = None \<and> map_of (fs w) p \<noteq> None"
  by (simp add: exists_def Path_exists_def split: option.split)

lemma absent_iff: "absent w p \<longleftrightarrow> refused w (Stat p) = None \<and> map_of (fs w) p = None"
  by (simp add: absent_def Path_exists_def split: option.split)

lemma Path_exists_True: "exists w p \<Longrightarrow> Path_exists p w = (Inr True, w)"
  by (simp add: exists_iff Path_exists_def)

lemma Path_exists_False: "absent w p \<Longrightarrow> Path_exists p w = (Inr False, w)"
  by (simp add: absent_iff Path_exists_def)


lemma Path_exists_answers:
  "refused w (Stat p) = None \<Longrightarrow> Path_exists p w = (Inr (exists w p), w)"
  by (simp add: exists_iff Path_exists_def)

lemma exists_print [simp]: "exists (print l w) p = exists w p"
  by (simp add: exists_iff)

lemma exists_print_all [simp]: "exists (print_all ls w) p = exists w p"
  by (simp add: exists_iff)

lemma absent_print [simp]: "absent (print l w) p = absent w p"
  by (simp add: absent_iff)

lemma absent_print_all [simp]: "absent (print_all ls w) p = absent w p"
  by (simp add: absent_iff)

lemma write_text_Exception: "write_text p t w = (Inl e, w') \<Longrightarrow> is_Exception e"
  by (auto simp: write_text_def is_Exception_def split: option.splits node.splits)



section \<open>Paths of plain names\<close>










section \<open>The directory rename\<close>







section \<open>The package marker\<close>










section \<open>The configuration file\<close>

text \<open>
  C9. \<open>update_pyproject_toml\<close> does not read its argument \<open>package_name\<close>: two calls
  that differ only in it give the same flag, the same files and the same output.
\<close>

theorem package_name_unused:
  "update_pyproject_toml U package_name project_name author_name author_email w
   = update_pyproject_toml U package_name' project_name author_name author_email w"
  by (simp add: update_pyproject_toml_def)

section \<open>What only the terminal changes\<close>

lemma machine_print [simp]: "machine (print l w) = machine w"
  by (simp add: machine_def print_def)

lemma machine_print_all [simp]: "machine (print_all ls w) = machine w"
  unfolding print_all_def by (induction ls arbitrary: w) simp_all

lemma machine_fs: "machine w' = machine w \<Longrightarrow> fs w' = fs w"
  by (simp add: machine_def)

lemma py_input_machine: "py_input p w = (r, w') \<Longrightarrow> machine w' = machine w"
  by (auto simp: py_input_def machine_def print_def Let_def split: list.splits event.splits)

lemma ask_project_name_machine:
  "ask_project_name U w = (r, w') \<Longrightarrow> machine w' = machine w"
proof (induction U w rule: ask_project_name.induct)
  case (1 U w)
  let ?p = "[S (ascii ''Enter your project name (e.g., 'My GenAI App'): '')]"
  obtain a w1 where p: "py_input ?p w = (a, w1)"
    by (cases "py_input ?p w")
  then have m: "machine w1 = machine w"
    by (rule py_input_machine)
  show ?case
  proof (cases a)
    case (Inl e)
    with p "1.prems" m show ?thesis
      by (simp add: ask_project_name.simps [of U w])
  next
    case (Inr l)
    show ?thesis
    proof (cases "strip U l = []")
      case False
      with Inr p "1.prems" m show ?thesis
        by (simp add: ask_project_name.simps [of U w])
    next
      case True
      then have t: "\<not> strip U l \<noteq> []" by simp
      from True Inr p "1.prems"
      have "ask_project_name U (print [S (ascii ''Project name cannot be empty!'')] w1) = (r, w')"
        by (simp add: ask_project_name.simps [of U w])
      from "1.IH" [OF p [symmetric] Inr refl t this] m show ?thesis
        by simp
    qed
  qed
qed

lemma get_user_input_machine:
  "get_user_input U w = (r, w') \<Longrightarrow> machine w' = machine w"
  unfolding get_user_input_def Let_def
  by (auto split: prod.splits sum.splits dest!: py_input_machine ask_project_name_machine)


section \<open>Sessions, line by line\<close>

lemmas str_defs = ascii_def strip_def lower_def char_classes ascii_tables

lemma stdin_print [simp]: "stdin (print l w) = stdin w"
  by (simp add: print_def)

lemma stdin_print_all [simp]: "stdin (print_all ls w) = stdin w"
  unfolding print_all_def by (induction ls arbitrary: w) simp_all

lemma py_input_Line:
  "stdin w = Line l # rest \<Longrightarrow> py_input p w = (Inr l, (print p w)\<lparr>stdin := rest\<rparr>)"
  by (simp add: py_input_def Let_def)

lemma ask_project_name_Line:
  "stdin w = Line a # rest \<Longrightarrow> strip U a \<noteq> [] \<Longrightarrow>
   ask_project_name U w
   = (Inr (strip U a),
      (print [S (ascii ''Enter your project name (e.g., 'My GenAI App'): '')] w)\<lparr>stdin := rest\<rparr>)"
  by (subst ask_project_name.simps) (simp add: py_input_Line Let_def)

lemma get_user_input_answers:
  assumes "stdin w = Line a # Line b # Line c # Line d # Line e # rest" and "strip U a \<noteq> []"
  shows "\<exists>w1. get_user_input U w
     = (Inr (if strip U b \<noteq> [] then to_snake_case U (strip U b) else to_snake_case U (strip U a),
             if strip U c \<noteq> [] then to_kebab_case U (strip U c) else to_kebab_case U (strip U a),
             if strip U d \<noteq> [] then strip U d else ascii ''Your Name'',
             if strip U e \<noteq> [] then strip U e else ascii ''your.email@example.com''), w1)
     \<and> stdin w1 = rest"
  using assms
  by (simp add: get_user_input_def Let_def ask_project_name_Line py_input_Line)

lemma exists_pyproject: "exists (session ls) (Path (ascii ''pyproject.toml''))"
  by (simp add: exists_iff session_def template_files_def Path_def ascii_def Let_def)

lemma strip_My_GenAI_App: "strip U (ascii ''My GenAI App'') = ascii ''My GenAI App''"
  by (simp add: str_defs)

lemma strip_empty: "strip U [] = []"
  by (simp add: strip_def)

lemma lower_strip_n: "lower U (strip U (ascii ''n'')) = ascii ''n''"
  by (simp add: str_defs)

lemma ascii_nonempty: "ascii ''My GenAI App'' \<noteq> []"
  by (simp add: ascii_def)


section \<open>Declining the confirmation\<close>

text \<open>
  C7. When \<open>main\<close> reaches the prompt \<open>Proceed with these settings?\<close> and the user
  answers \<open>n\<close> or \<open>no\<close> (in any case, with any surrounding white space), \<open>main\<close>
  returns 0, the process exits with 0, and the files are the ones the script found:
  no rename, no rewrite, no change of \<open>.git\<close>, no deletion.
\<close>

theorem declined_confirmation_changes_nothing:
  assumes "exists w (Path (ascii ''pyproject.toml''))"
    and "get_user_input U w = (Inr (package_name, project_name, author_name, author_email), w1)"
    and "py_input [S (ascii ''Proceed with these settings? [Y/n]: '')]
           (print_all (summary package_name project_name author_name author_email) w1)
         = (Inr l, w2)"
    and "lower U (strip U l) = ascii ''n'' \<or> lower U (strip U l) = ascii ''no''"
  shows "main U w = (Inr 0, print [S (ascii ''Aborted.'')] w2)
       \<and> run_script U w = (0, print [S (ascii ''Aborted.'')] w2)
       \<and> fs (print [S (ascii ''Aborted.'')] w2) = fs w"
proof -
  have m: "main U w = (Inr 0, print [S (ascii ''Aborted.'')] w2)"
    using assms by (auto simp: main_def Let_def Path_exists_True)
  have "machine w1 = machine w"
    using assms(2) by (rule get_user_input_machine)
  moreover have "machine w2 = machine w1"
    using py_input_machine [OF assms(3)] by simp
  ultimately have "fs w2 = fs w"
    by (simp add: machine_def)
  with m show ?thesis
    by (simp add: run_script_def)
qed

theorem declined_confirmation_changes_nothing_witness:
  "fst (main tables_0130
          (session [ascii ''My GenAI App'', [], [], [], [], ascii ''n''])) = Inr 0
   \<and> fst (run_script tables_0130
          (session [ascii ''My GenAI App'', [], [], [], [], ascii ''n''])) = 0
   \<and> fs (snd (main tables_0130
          (session [ascii ''My GenAI App'', [], [], [], [], ascii ''n''])))
     = fs (session [ascii ''My GenAI App'', [], [], [], [], ascii ''n''])"
proof -
  let ?U = tables_0130
  let ?w = "session [ascii ''My GenAI App'', [], [], [], [], ascii ''n'']"
  have "stdin ?w = Line (ascii ''My GenAI App'') # Line [] # Line [] # Line [] # Line []
          # [Line (ascii ''n'')]"
    by (simp add: session_def)
  from get_user_input_answers [OF this, of ?U]
  obtain package_name project_name author_name author_email w1
    where g: "get_user_input ?U ?w
              = (Inr (package_name, project_name, author_name, author_email), w1)"
      and s: "stdin w1 = [Line (ascii ''n'')]"
    by (auto simp: strip_My_GenAI_App ascii_nonempty)
  let ?w1 = "print_all (summary package_name project_name author_name author_email) w1"
  from s have "stdin ?w1 = Line (ascii ''n'') # []"
    by simp
  then have p: "py_input [S (ascii ''Proceed with these settings? [Y/n]: '')] ?w1
                = (Inr (ascii ''n''),
                   (print [S (ascii ''Proceed with these settings? [Y/n]: '')] ?w1)\<lparr>stdin := []\<rparr>)"
    by (rule py_input_Line)
  have d: "lower ?U (strip ?U (ascii ''n'')) = ascii ''n''
           \<or> lower ?U (strip ?U (ascii ''n'')) = ascii ''no''"
    by (simp add: lower_strip_n)
  from declined_confirmation_changes_nothing [OF exists_pyproject g p d]
  show ?thesis
    by simp
qed

section \<open>Replacement strings without a backslash\<close>

text \<open>
  A replacement string without a backslash is its own expansion, so \<open>re.sub\<close> cannot
  fail on it. Then each step of \<open>main\<close> is followed separately: what it returns, and
  that it leaves the terminal's input, the refusals and the path of the script alone.
\<close>

lemma parse_template_plain: "92 \<notin> set r \<Longrightarrow> parse_template r = Inr (map Lit r)"
  by (induction r) (simp_all add: prepend_def)

lemma expand_plain: "expand (map Lit r) = (\<lambda>_. r)"
  by (rule ext) (induction r, simp_all add: expand_def)

lemma re_sub_plain:
  "92 \<notin> set r \<Longrightarrow> re_sub eq p r s = Inr (subx (rmatch eq p) (\<lambda>_. r) s)"
  by (simp add: re_sub_def parse_template_plain expand_plain)

lemma no_backslash_ascii:
  "92 \<notin> set (ascii ''name = \"'')" "92 \<notin> set (ascii ''\"'')"
  "92 \<notin> set (ascii ''description = \"'')" "92 \<notin> set (ascii '' - A GenAI application\"'')"
  "92 \<notin> set (ascii ''email = \"'')"
  by (simp_all add: ascii_def)

lemma substitutions_plain:
  assumes "92 \<notin> set project_name" "92 \<notin> set author_name" "92 \<notin> set author_email"
  shows "substitutions U project_name author_name author_email content =
    Inr (subx (rmatch (=) email_pattern) (\<lambda>_. ascii ''email = \"'' @ author_email @ ascii ''\"'')
        (subx (rmatch (=) author_pattern) (\<lambda>_. ascii ''name = \"'' @ author_name @ ascii ''\"'')
        (subx (rmatch (ignorecase U) description_pattern)
           (\<lambda>_. ascii ''description = \"'' @ project_name @ ascii '' - A GenAI application\"'')
        (subx (rmatch (=) name_pattern) (\<lambda>_. ascii ''name = \"'' @ project_name @ ascii ''\"'')
           content))))"
  using assms by (simp add: substitutions_def re_sub_plain no_backslash_ascii)

lemma main_fails:
  assumes "exists w (Path (ascii ''pyproject.toml''))"
    and "get_user_input U w = (Inr (package_name, project_name, author_name, author_email), w1)"
    and "py_input [S (ascii ''Proceed with these settings? [Y/n]: '')]
           (print_all (summary package_name project_name author_name author_email) w1)
         = (Inr l, w2)"
    and "\<not> (lower U (strip U l) = ascii ''n'' \<or> lower U (strip U l) = ascii ''no'')"
    and "rename_package (ascii ''template_package'') package_name
           (print_all [[], [S (ascii ''Initializing template...'')], []] w2) = (Inr a, w3)"
    and "update_pyproject_toml U package_name project_name author_name author_email w3 = (Inr b, w4)"
    and "update_package_init U package_name w4 = (Inr c, w5)"
    and "reinit_git U w5 = (Inr d, w6)"
    and "\<not> (a \<and> b \<and> c \<and> d)"
  shows "main U w = (Inr 1, print_all completed_with_errors w6)"
  using assms by (auto simp: main_def Let_def Path_exists_True)

lemma main_succeeds:
  assumes "exists w (Path (ascii ''pyproject.toml''))"
    and "get_user_input U w = (Inr (package_name, project_name, author_name, author_email), w1)"
    and "py_input [S (ascii ''Proceed with these settings? [Y/n]: '')]
           (print_all (summary package_name project_name author_name author_email) w1)
         = (Inr l, w2)"
    and "\<not> (lower U (strip U l) = ascii ''n'' \<or> lower U (strip U l) = ascii ''no'')"
    and "rename_package (ascii ''template_package'') package_name
           (print_all [[], [S (ascii ''Initializing template...'')], []] w2) = (Inr True, w3)"
    and "update_pyproject_toml U package_name project_name author_name author_email w3
         = (Inr True, w4)"
    and "update_package_init U package_name w4 = (Inr True, w5)"
    and "reinit_git U w5 = (Inr True, w6)"
    and "py_input [S (ascii ''Remove this initialization script? [Y/n]: '')]
           (print_all next_steps w6) = (Inr l', w7)"
    and "\<not> (lower U (strip U l') = ascii ''n'' \<or> lower U (strip U l') = ascii ''no'')"
    and "remove_self w7 = (Inr u, w8)"
  shows "main U w = (Inr 0, w8)"
  using assms by (auto simp: main_def Let_def Path_exists_True)

lemma console_print [simp]: "console (print l w) = console w"
  by (simp add: console_def print_def)

lemma console_print_all [simp]: "console (print_all ls w) = console w"
  unfolding print_all_def by (induction ls arbitrary: w) simp_all

lemma rename_package_returns:
  assumes "\<And>p. refused w (Stat p) = None"
  shows "\<exists>a w'. rename_package old_name new_name w = (Inr a, w') \<and> console w' = console w"
  using assms
  by (auto simp: rename_package_def Let_def Path_exists_def shutil_move_def console_def print_def
      is_Exception_def split: option.splits node.splits)

lemma rename_package_moves:
  assumes "exists w (joinpath (Path (ascii ''src'')) old_name)"
    and "absent w (joinpath (Path (ascii ''src'')) new_name)"
    and "refused w (Move (joinpath (Path (ascii ''src'')) old_name)
                         (joinpath (Path (ascii ''src'')) new_name)) = None"
    and "map_of (fs w) (joinpath (Path (ascii ''src'')) old_name) = Some Dir"
    and "\<not> under (joinpath (Path (ascii ''src'')) old_name)
                     (joinpath (Path (ascii ''src'')) new_name)"
  shows "\<exists>w'. rename_package old_name new_name w = (Inr True, w') \<and> console w' = console w
     \<and> fs w' = move_tree (fs w) (joinpath (Path (ascii ''src'')) old_name)
                                 (joinpath (Path (ascii ''src'')) new_name)"
  using assms
  by (simp add: rename_package_def Let_def Path_exists_True Path_exists_False shutil_move_def
      console_def print_def)

lemma parse_template_Exception: "parse_template r = Inl e \<Longrightarrow> is_Exception e"
proof (induction "length r" arbitrary: r e rule: less_induct)
  case less
  have p: "\<not> length t < length r" if "prepend ps (parse_template t) = Inl KeyboardInterrupt"
    for ps t
    using that less.hyps [of t KeyboardInterrupt]
    by (auto simp: prepend_def is_Exception_def split: sum.splits)
  have d: "length (tl (dropWhile (\<lambda>x. x \<noteq> 62) bs)) < Suc (Suc (Suc (length bs)))" for bs :: pystr
    using length_dropWhile_le [of "\<lambda>x. x \<noteq> 62" bs] by simp
  show ?case
  proof (cases r)
    case Nil
    with less.prems show ?thesis by simp
  next
    case (Cons c cs)
    with less.prems d show ?thesis
      by (auto simp: is_Exception_def split: if_splits list.splits option.splits dest!: p)
  qed
qed

lemma re_sub_Exception: "re_sub eq p r s = Inl e \<Longrightarrow> is_Exception e"
  by (auto simp: re_sub_def split: sum.splits dest: parse_template_Exception)

lemma substitutions_Exception:
  "substitutions U project_name author_name author_email content = Inl e \<Longrightarrow> is_Exception e"
  by (auto simp: substitutions_def split: sum.splits dest: re_sub_Exception)

lemma map_of_put: "q \<noteq> p \<Longrightarrow> map_of (put files p n) q = map_of files q"
  by (induction files p n rule: put.induct) auto

lemma update_pyproject_toml_returns:
  assumes "\<And>p. refused w (Stat p) = None"
  shows "\<exists>b w'. update_pyproject_toml U p project_name author_name author_email w = (Inr b, w')
     \<and> console w' = console w"
  using assms
  by (auto simp: update_pyproject_toml_def Let_def Path_exists_def read_text_def write_text_def
      console_def print_def is_Exception_def split: option.splits node.splits sum.splits
      dest: substitutions_Exception [unfolded is_Exception_def])

lemma update_pyproject_toml_writes:
  assumes "map_of (fs w) (Path (ascii ''pyproject.toml'')) = Some (File content)"
    and "refused w (Stat (Path (ascii ''pyproject.toml''))) = None"
    and "refused w (Read_text (Path (ascii ''pyproject.toml''))) = None"
    and "refused w (Write_text (Path (ascii ''pyproject.toml''))) = None"
    and "substitutions U project_name author_name author_email (universal_newlines content)
         = Inr content'"
  shows "\<exists>w'. update_pyproject_toml U p project_name author_name author_email w = (Inr True, w')
     \<and> console w' = console w
     \<and> (\<forall>q. q \<noteq> Path (ascii ''pyproject.toml'') \<longrightarrow> map_of (fs w') q = map_of (fs w) q)"
  using assms
  by (simp add: update_pyproject_toml_def Let_def Path_exists_def read_text_def write_text_def
      console_def print_def map_of_put)

lemma update_package_init_returns:
  assumes "\<And>p. refused w (Stat p) = None"
  shows "\<exists>w'. update_package_init U package_name w = (Inr True, w') \<and> console w' = console w
     \<and> (\<forall>q. q \<noteq> marker_path package_name \<longrightarrow> map_of (fs w') q = map_of (fs w) q)"
  using assms
  by (auto simp: update_package_init_def Let_def Path_exists_def write_text_def console_def
      print_def is_Exception_def map_of_put split: option.splits node.splits)

lemma reinit_git_yes:
  assumes "stdin w = Line g # rest"
    and "lower U (strip U g) = ascii ''y'' \<or> lower U (strip U g) = ascii ''yes''"
    and "refused w (Stat (Path (ascii ''.git''))) = None"
    and "\<And>text. map_of (fs w) (Path (ascii ''.git'')) \<noteq> Some (File text)"
  shows "\<exists>w'. reinit_git U w = (Inr (\<not> git_fails w), w')
     \<and> console w' = (rest, refused w, script_path w)"
  using assms
  by (auto simp: reinit_git_def py_input_Line Let_def Path_exists_def shutil_rmtree_def
      git_init_def exists_iff git_fails_def console_def is_Exception_def print_def
      split: option.splits node.splits)

lemma remove_self_returns: "\<exists>w'. remove_self w = (Inr (), w')"
  by (auto simp: remove_self_def unlink_def is_Exception_def split: option.splits node.splits)

section \<open>A failure of the git reinitialization\<close>

text \<open>
  Where every question about the status of a path gets an answer, the first three
  steps return a flag. If the user asks for the reinitialization and git fails,
  \<open>reinit_git\<close> catches the error, prints the warning and returns \<open>False\<close>.
\<close>

lemma steps_return:
  assumes "\<And>p. refused w (Stat p) = None"
  shows "\<exists>a b c w3 w4 w5.
     rename_package old_name package_name w = (Inr a, w3)
     \<and> update_pyproject_toml U package_name project_name author_name author_email w3 = (Inr b, w4)
     \<and> update_package_init U package_name w4 = (Inr c, w5)
     \<and> console w5 = console w"
proof -
  obtain a w3 where 1: "rename_package old_name package_name w = (Inr a, w3)"
    "console w3 = console w"
    using rename_package_returns [OF assms] by blast
  from 1(2) assms have s3: "refused w3 (Stat p) = None" for p
    by (simp add: console_def)
  obtain b w4 where 2:
    "update_pyproject_toml U package_name project_name author_name author_email w3 = (Inr b, w4)"
    "console w4 = console w3"
    using update_pyproject_toml_returns [OF s3] by blast
  from 2(2) s3 have s4: "refused w4 (Stat p) = None" for p
    by (simp add: console_def)
  obtain w5 where 3: "update_package_init U package_name w4 = (Inr True, w5)"
    "console w5 = console w4"
    using update_package_init_returns [OF s4] by blast
  from 1 2 3 show ?thesis by auto
qed

lemma reinit_git_failure:
  assumes "stdin w = Line g # rest"
    and "lower U (strip U g) = ascii ''y'' \<or> lower U (strip U g) = ascii ''yes''"
    and "git_fails w"
  shows "\<exists>e w'. is_Exception e
     \<and> reinit_git U w
       = (Inr False,
          print [S (warning_sign @ ascii ''  Warning: Git reinitialization failed: ''), E e] w')"
proof -
  let ?p = "[S (ascii ''Reinitialize git repository? (removes old history) [y/N]: '')]"
  let ?w = "(print ?p (print [] w))\<lparr>stdin := rest\<rparr>"
  let ?git = "Path (ascii ''.git'')"
  have i: "py_input ?p (print [] w) = (Inr g, ?w)"
    using assms(1) by (simp add: py_input_Line)
  have f: "refused ?w = refused w" "fs ?w = fs w"
    by simp_all
  have caught: ?thesis
    if "(case Path_exists ?git ?w of
           (Inl e, w) \<Rightarrow> (Inl e, w)
         | (Inr found, w) \<Rightarrow>
             if found
             then (case shutil_rmtree ?git w of
                     (Inl e, w) \<Rightarrow> (Inl e, w)
                   | (Inr u, w) \<Rightarrow>
                       (Inr (),
                        print [S (check_mark @ ascii '' Removed old .git directory'')] w))
             else (Inr (), w)) = (Inl (OSError msg), w1)
        \<or> (\<exists>w0. (case Path_exists ?git ?w of
           (Inl e, w) \<Rightarrow> (Inl e, w)
         | (Inr found, w) \<Rightarrow>
             if found
             then (case shutil_rmtree ?git w of
                     (Inl e, w) \<Rightarrow> (Inl e, w)
                   | (Inr u, w) \<Rightarrow>
                       (Inr (),
                        print [S (check_mark @ ascii '' Removed old .git directory'')] w))
             else (Inr (), w)) = (Inr (), w0) \<and> git_init w0 = (Inl (OSError msg), w1))"
    for msg w1
    using that assms(2) i
    by (auto simp: reinit_git_def Let_def is_Exception_def intro!: exI [of _ "OSError msg"])
  show ?thesis
  proof (cases "refused w (Stat ?git)")
    case (Some msg)
    with f show ?thesis
      by (intro caught [of msg ?w]) (simp add: Path_exists_def)
  next
    case stat: None
    show ?thesis
    proof (cases "map_of (fs w) ?git")
      case None
      with stat assms(3) obtain msg where m: "refused w Git_init = Some msg"
        by (auto simp: git_fails_def exists_iff)
      with None stat f show ?thesis
        by (intro caught [of msg ?w]) (simp add: Path_exists_def git_init_def)
    next
      case (Some n)
      show ?thesis
      proof (cases "refused w (Rmtree ?git)")
        case rm: (Some msg)
        with Some stat f show ?thesis
          by (intro caught [of msg ?w]) (simp add: Path_exists_def shutil_rmtree_def)
      next
        case rm: None
        show ?thesis
        proof (cases n)
          case (File content)
          with Some stat rm f show ?thesis
            by (intro caught [of "ascii ''Not a directory''" ?w])
              (simp add: Path_exists_def shutil_rmtree_def)
        next
          case Dir
          from rm assms(3) obtain msg where m: "refused w Git_init = Some msg"
            by (auto simp: git_fails_def)
          let ?w0 = "print [S (check_mark @ ascii '' Removed old .git directory'')]
                       (?w\<lparr>fs := remove_tree (fs ?w) ?git\<rparr>)"
          from Dir Some stat rm f m show ?thesis
            by (intro caught [of msg ?w0])
              (simp add: Path_exists_def shutil_rmtree_def git_init_def)
        qed
      qed
    qed
  qed
qed

text \<open>
  C1. A failure of the git reinitialization is caught: \<open>reinit_git\<close> reports it with a
  warning line and returns \<open>False\<close>, and does not raise. It is not ignored by \<open>main\<close>:
  the flag of the run is the conjunction of the results of the four steps, so whatever
  the first three steps returned, \<open>main\<close> prints the summary of a run completed with
  errors and returns 1, which is the exit status of the script.
\<close>

theorem git_failure_fails_the_run:
  assumes "exists w (Path (ascii ''pyproject.toml''))"
    and "get_user_input U w = (Inr (package_name, project_name, author_name, author_email), w1)"
    and "py_input [S (ascii ''Proceed with these settings? [Y/n]: '')]
           (print_all (summary package_name project_name author_name author_email) w1)
         = (Inr l, w2)"
    and "\<not> (lower U (strip U l) = ascii ''n'' \<or> lower U (strip U l) = ascii ''no'')"
    and "rename_package (ascii ''template_package'') package_name
           (print_all [[], [S (ascii ''Initializing template...'')], []] w2) = (Inr a, w3)"
    and "update_pyproject_toml U package_name project_name author_name author_email w3 = (Inr b, w4)"
    and "update_package_init U package_name w4 = (Inr c, w5)"
    and "stdin w5 = Line answer # rest"
    and "lower U (strip U answer) = ascii ''y'' \<or> lower U (strip U answer) = ascii ''yes''"
    and "git_fails w5"
  shows "\<exists>e w6. is_Exception e
     \<and> reinit_git U w5
       = (Inr False,
          print [S (warning_sign @ ascii ''  Warning: Git reinitialization failed: ''), E e] w6)
     \<and> main U w
       = (Inr 1,
          print_all completed_with_errors
            (print [S (warning_sign @ ascii ''  Warning: Git reinitialization failed: ''), E e] w6))
     \<and> fst (run_script U w) = 1"
proof -
  from reinit_git_failure [OF assms(8) assms(9) assms(10)]
  obtain e w6 where x: "is_Exception e"
    and r: "reinit_git U w5
       = (Inr False,
          print [S (warning_sign @ ascii ''  Warning: Git reinitialization failed: ''), E e] w6)"
    by blast
  have "main U w
       = (Inr 1,
          print_all completed_with_errors
            (print [S (warning_sign @ ascii ''  Warning: Git reinitialization failed: ''), E e] w6))"
    by (rule main_fails [OF assms(1-7) r]) simp
  with x r show ?thesis
    by (auto simp: run_script_def)
qed

section \<open>The session that says yes to everything\<close>

text \<open>
  The session \<open>all_yes\<close> on the files of the template, followed step by step: with
  nothing refused every step succeeds and \<open>main\<close> returns 0; without the \<open>git\<close>
  executable the first three steps succeed all the same and \<open>main\<close> returns 1.
\<close>

lemma script_path_print [simp]: "script_path (print l w) = script_path w"
  by (simp add: print_def)

lemma script_path_print_all [simp]: "script_path (print_all ls w) = script_path w"
  unfolding print_all_def by (induction ls arbitrary: w) simp_all

lemma snake_my_genai_app: "to_snake_case U (ascii ''My GenAI App'') = ascii ''my_genai_app''"
  by (simp add: to_snake_case_def ascii_def lower_def char_classes ascii_tables)

lemma kebab_my_genai_app: "to_kebab_case U (ascii ''My GenAI App'') = ascii ''my-genai-app''"
  by (simp add: to_kebab_case_def ascii_def lower_def char_classes ascii_tables)

lemma lower_strip_y: "lower U (strip U (ascii ''y'')) = ascii ''y''"
  by (simp add: str_defs)

lemma y_is_not_no: "\<not> (ascii ''y'' = ascii ''n'' \<or> ascii ''y'' = ascii ''no'')"
  by (simp add: ascii_def)

lemma reach_all_yes:
  assumes "stdin w = map Line all_yes"
  shows "\<exists>w1 w2.
     get_user_input U w
       = (Inr (ascii ''my_genai_app'', ascii ''my-genai-app'', ascii ''Your Name'',
               ascii ''your.email@example.com''), w1)
     \<and> py_input [S (ascii ''Proceed with these settings? [Y/n]: '')]
         (print_all (summary (ascii ''my_genai_app'') (ascii ''my-genai-app'') (ascii ''Your Name'')
                       (ascii ''your.email@example.com'')) w1)
       = (Inr (ascii ''y''), w2)
     \<and> stdin w2 = [Line (ascii ''y''), Line (ascii ''y'')]
     \<and> machine w2 = machine w"
proof -
  have "stdin w = Line (ascii ''My GenAI App'') # Line [] # Line [] # Line [] # Line []
          # [Line (ascii ''y''), Line (ascii ''y''), Line (ascii ''y'')]"
    using assms by (simp add: all_yes_def)
  from get_user_input_answers [OF this, of U]
  obtain w1 where g: "get_user_input U w
       = (Inr (ascii ''my_genai_app'', ascii ''my-genai-app'', ascii ''Your Name'',
               ascii ''your.email@example.com''), w1)"
    and s: "stdin w1 = [Line (ascii ''y''), Line (ascii ''y''), Line (ascii ''y'')]"
    by (auto simp: strip_My_GenAI_App ascii_nonempty strip_empty snake_my_genai_app
        kebab_my_genai_app)
  let ?w = "print_all (summary (ascii ''my_genai_app'') (ascii ''my-genai-app'')
                       (ascii ''Your Name'') (ascii ''your.email@example.com'')) w1"
  let ?p = "[S (ascii ''Proceed with these settings? [Y/n]: '')]"
  from s have p: "py_input ?p ?w
      = (Inr (ascii ''y''), (print ?p ?w)\<lparr>stdin := [Line (ascii ''y''), Line (ascii ''y'')]\<rparr>)"
    by (simp add: py_input_Line)
  have "machine w1 = machine w"
    using g by (rule get_user_input_machine)
  moreover have "machine ((print ?p ?w)\<lparr>stdin := [Line (ascii ''y''), Line (ascii ''y'')]\<rparr>)
      = machine w1"
    using py_input_machine [OF p] by simp
  ultimately show ?thesis
    using g p by auto
qed

lemma exit_1_without_git:
  assumes "stdin w = map Line all_yes" and "fs w = template_files" and "refused w = no_git"
  shows "fst (main U w) = Inr 1"
proof -
  from reach_all_yes [OF assms(1), of U]
  obtain w1 w2 where g: "get_user_input U w
       = (Inr (ascii ''my_genai_app'', ascii ''my-genai-app'', ascii ''Your Name'',
               ascii ''your.email@example.com''), w1)"
    and p: "py_input [S (ascii ''Proceed with these settings? [Y/n]: '')]
         (print_all (summary (ascii ''my_genai_app'') (ascii ''my-genai-app'') (ascii ''Your Name'')
                       (ascii ''your.email@example.com'')) w1)
       = (Inr (ascii ''y''), w2)"
    and s: "stdin w2 = [Line (ascii ''y''), Line (ascii ''y'')]"
    and m: "machine w2 = machine w"
    by blast
  have e: "exists w (Path (ascii ''pyproject.toml''))"
    using assms(2,3)
    by (simp add: exists_iff no_git_def template_files_def Path_def ascii_def Let_def)
  have nd: "\<not> (lower U (strip U (ascii ''y'')) = ascii ''n''
      \<or> lower U (strip U (ascii ''y'')) = ascii ''no'')"
    using y_is_not_no by (simp add: lower_strip_y)
  let ?w2 = "print_all [[], [S (ascii ''Initializing template...'')], []] w2"
  from m assms(3) have "refused ?w2 (Stat q) = None" for q
    by (simp add: machine_def no_git_def)
  from steps_return [OF this, of "ascii ''template_package''" "ascii ''my_genai_app''" U
      "ascii ''my-genai-app''" "ascii ''Your Name''" "ascii ''your.email@example.com''"]
  obtain a b c w3 w4 w5 where
    r1: "rename_package (ascii ''template_package'') (ascii ''my_genai_app'') ?w2 = (Inr a, w3)"
    and r2: "update_pyproject_toml U (ascii ''my_genai_app'') (ascii ''my-genai-app'')
              (ascii ''Your Name'') (ascii ''your.email@example.com'') w3 = (Inr b, w4)"
    and r3: "update_package_init U (ascii ''my_genai_app'') w4 = (Inr c, w5)"
    and c5: "console w5 = console ?w2"
    by blast
  from c5 s m assms(3) have s5: "stdin w5 = Line (ascii ''y'') # [Line (ascii ''y'')]"
    and f5: "refused w5 = no_git"
    by (simp_all add: console_def machine_def)
  from f5 have gf: "git_fails w5"
    by (simp add: git_fails_def no_git_def)
  have y: "lower U (strip U (ascii ''y'')) = ascii ''y''
      \<or> lower U (strip U (ascii ''y'')) = ascii ''yes''"
    by (simp add: lower_strip_y)
  from reinit_git_failure [OF s5 y gf]
  obtain x w6 where r4: "reinit_git U w5
       = (Inr False,
          print [S (warning_sign @ ascii ''  Warning: Git reinitialization failed: ''), E x] w6)"
    by blast
  have "main U w
      = (Inr 1,
         print_all completed_with_errors
           (print [S (warning_sign @ ascii ''  Warning: Git reinitialization failed: ''), E x] w6))"
    by (rule main_fails [OF e g p nd r1 r2 r3 r4]) simp
  then show ?thesis by simp
qed

lemma template_paths:
  "joinpath (Path (ascii ''src'')) (ascii ''template_package'')
     = \<lparr>root = 0, parts = [ascii ''src'', ascii ''template_package'']\<rparr>"
  "joinpath (Path (ascii ''src'')) (ascii ''my_genai_app'')
     = \<lparr>root = 0, parts = [ascii ''src'', ascii ''my_genai_app'']\<rparr>"
  "Path (ascii ''pyproject.toml'') = \<lparr>root = 0, parts = [ascii ''pyproject.toml'']\<rparr>"
  "Path (ascii ''.git'') = \<lparr>root = 0, parts = [ascii ''.git'']\<rparr>"
  by (simp_all add: joinpath_def Path_def ascii_def Let_def)

lemma template_files_paths:
  "template_files =
     [(\<lparr>root = 0, parts = [ascii ''pyproject.toml'']\<rparr>, File pyproject_text),
      (\<lparr>root = 0, parts = [ascii ''src'']\<rparr>, Dir),
      (\<lparr>root = 0, parts = [ascii ''src'', ascii ''template_package'']\<rparr>, Dir),
      (\<lparr>root = 0, parts = [ascii ''src'', ascii ''template_package'', ascii ''__init__.py'']\<rparr>,
       File []),
      (\<lparr>root = 0, parts = [ascii ''.git'']\<rparr>, Dir),
      (\<lparr>root = 0, parts = [ascii ''init_template.py'']\<rparr>, File [])]"
  by (simp add: template_files_def Path_def ascii_def Let_def)

lemma moved_pyproject:
  "map_of (move_tree template_files
             (joinpath (Path (ascii ''src'')) (ascii ''template_package''))
             (joinpath (Path (ascii ''src'')) (ascii ''my_genai_app'')))
     (Path (ascii ''pyproject.toml'')) = Some (File pyproject_text)"
  apply (simp only: template_paths template_files_paths)
  apply (simp add: move_tree_def under_def ascii_def)
  done

lemma moved_git:
  "map_of (move_tree template_files
             (joinpath (Path (ascii ''src'')) (ascii ''template_package''))
             (joinpath (Path (ascii ''src'')) (ascii ''my_genai_app'')))
     (Path (ascii ''.git'')) = Some Dir"
  apply (simp only: template_paths template_files_paths)
  apply (simp add: move_tree_def under_def ascii_def)
  done

lemma template_has_package:
  "map_of template_files (joinpath (Path (ascii ''src'')) (ascii ''template_package'')) = Some Dir"
  "map_of template_files (joinpath (Path (ascii ''src'')) (ascii ''my_genai_app'')) = None"
  "\<not> under (joinpath (Path (ascii ''src'')) (ascii ''template_package''))
           (joinpath (Path (ascii ''src'')) (ascii ''my_genai_app''))"
  by (simp_all only: template_paths template_files_paths) (simp_all add: ascii_def under_def)

lemma git_is_no_target:
  "Path (ascii ''.git'') \<noteq> Path (ascii ''pyproject.toml'')"
  "Path (ascii ''.git'') \<noteq> marker_path (ascii ''my_genai_app'')"
  by (simp_all add: marker_path_def joinpath_def Path_def ascii_def Let_def)

lemma no_backslash_answers:
  "92 \<notin> set (ascii ''my-genai-app'')" "92 \<notin> set (ascii ''Your Name'')"
  "92 \<notin> set (ascii ''your.email@example.com'')"
  by (simp_all add: ascii_def)

lemma pyproject_text_newlines: "universal_newlines pyproject_text = pyproject_text"
  by (simp add: pyproject_text_def ascii_def)

lemma exit_0_all_yes:
  assumes "stdin w = map Line all_yes" and "fs w = template_files" and "refused w = (\<lambda>c. None)"
  shows "fst (main U w) = Inr 0"
proof -
  from reach_all_yes [OF assms(1), of U]
  obtain w1 w2 where g: "get_user_input U w
       = (Inr (ascii ''my_genai_app'', ascii ''my-genai-app'', ascii ''Your Name'',
               ascii ''your.email@example.com''), w1)"
    and p: "py_input [S (ascii ''Proceed with these settings? [Y/n]: '')]
         (print_all (summary (ascii ''my_genai_app'') (ascii ''my-genai-app'') (ascii ''Your Name'')
                       (ascii ''your.email@example.com'')) w1)
       = (Inr (ascii ''y''), w2)"
    and s: "stdin w2 = [Line (ascii ''y''), Line (ascii ''y'')]"
    and m: "machine w2 = machine w"
    by blast
  have e: "exists w (Path (ascii ''pyproject.toml''))"
    using assms(2,3) by (simp add: exists_iff template_files_def Path_def ascii_def Let_def)
  have nd: "\<not> (lower U (strip U (ascii ''y'')) = ascii ''n''
      \<or> lower U (strip U (ascii ''y'')) = ascii ''no'')"
    using y_is_not_no by (simp add: lower_strip_y)
  let ?w2 = "print_all [[], [S (ascii ''Initializing template...'')], []] w2"
  from m assms have f2: "fs ?w2 = template_files" "refused ?w2 = (\<lambda>c. None)"
    by (simp_all add: machine_def)
  have x1: "exists ?w2 (joinpath (Path (ascii ''src'')) (ascii ''template_package''))"
    and x2: "absent ?w2 (joinpath (Path (ascii ''src'')) (ascii ''my_genai_app''))"
    and x4: "map_of (fs ?w2) (joinpath (Path (ascii ''src'')) (ascii ''template_package''))
             = Some Dir"
    using f2 template_has_package(1,2) by (simp_all add: exists_iff absent_iff)
  have x3: "refused ?w2 (Move (joinpath (Path (ascii ''src'')) (ascii ''template_package''))
                              (joinpath (Path (ascii ''src'')) (ascii ''my_genai_app''))) = None"
    using f2(2) by simp
  from rename_package_moves [OF x1 x2 x3 x4 template_has_package(3), unfolded f2(1)]
  obtain w3 where r1:
    "rename_package (ascii ''template_package'') (ascii ''my_genai_app'') ?w2 = (Inr True, w3)"
    and c3: "console w3 = console ?w2"
    and f3: "fs w3 = move_tree template_files
               (joinpath (Path (ascii ''src'')) (ascii ''template_package''))
               (joinpath (Path (ascii ''src'')) (ascii ''my_genai_app''))"
    by blast
  from c3 f2(2) have n3: "refused w3 = (\<lambda>c. None)"
    by (simp add: console_def)
  have m3: "map_of (fs w3) (Path (ascii ''pyproject.toml'')) = Some (File pyproject_text)"
    unfolding f3 by (rule moved_pyproject)
  have g3: "map_of (fs w3) (Path (ascii ''.git'')) = Some Dir"
    unfolding f3 by (rule moved_git)
  have st: "refused w3 (Stat (Path (ascii ''pyproject.toml''))) = None"
    and rd: "refused w3 (Read_text (Path (ascii ''pyproject.toml''))) = None"
    and wr: "refused w3 (Write_text (Path (ascii ''pyproject.toml''))) = None"
    by (simp_all add: n3)
  have sb: "substitutions U (ascii ''my-genai-app'') (ascii ''Your Name'')
      (ascii ''your.email@example.com'') (universal_newlines pyproject_text)
    = Inr (subx (rmatch (=) email_pattern)
        (\<lambda>_. ascii ''email = \"'' @ ascii ''your.email@example.com'' @ ascii ''\"'')
        (subx (rmatch (=) author_pattern) (\<lambda>_. ascii ''name = \"'' @ ascii ''Your Name'' @ ascii ''\"'')
        (subx (rmatch (ignorecase U) description_pattern)
           (\<lambda>_. ascii ''description = \"'' @ ascii ''my-genai-app'' @ ascii '' - A GenAI application\"'')
        (subx (rmatch (=) name_pattern) (\<lambda>_. ascii ''name = \"'' @ ascii ''my-genai-app'' @ ascii ''\"'')
           (universal_newlines pyproject_text)))))"
    by (rule substitutions_plain [OF no_backslash_answers])
  from update_pyproject_toml_writes [OF m3 st rd wr sb, of "ascii ''my_genai_app''"]
  obtain w4 where r2: "update_pyproject_toml U (ascii ''my_genai_app'') (ascii ''my-genai-app'')
              (ascii ''Your Name'') (ascii ''your.email@example.com'') w3 = (Inr True, w4)"
    and c4: "console w4 = console w3"
    and g4: "map_of (fs w4) (Path (ascii ''.git'')) = map_of (fs w3) (Path (ascii ''.git''))"
    using git_is_no_target(1) by blast
  from c4 n3 have n4: "refused w4 (Stat q) = None" for q
    by (simp add: console_def)
  from update_package_init_returns [OF n4, of U "ascii ''my_genai_app''"]
  obtain w5 where r3: "update_package_init U (ascii ''my_genai_app'') w4 = (Inr True, w5)"
    and c5: "console w5 = console w4"
    and g5: "map_of (fs w5) (Path (ascii ''.git'')) = map_of (fs w4) (Path (ascii ''.git''))"
    using git_is_no_target(2) by blast
  from c5 c4 c3 s f2(2) have s5: "stdin w5 = Line (ascii ''y'') # [Line (ascii ''y'')]"
    and f5: "refused w5 = (\<lambda>c. None)"
    by (simp_all add: console_def)
  from f5 have ng: "\<not> git_fails w5" and st5: "refused w5 (Stat (Path (ascii ''.git''))) = None"
    by (simp_all add: git_fails_def)
  from g5 g4 g3 have d5: "map_of (fs w5) (Path (ascii ''.git'')) \<noteq> Some (File content)"
    for content
    by simp
  have y: "lower U (strip U (ascii ''y'')) = ascii ''y''
      \<or> lower U (strip U (ascii ''y'')) = ascii ''yes''"
    by (simp add: lower_strip_y)
  from reinit_git_yes [OF s5 y st5 d5] ng
  obtain w6 where r4: "reinit_git U w5 = (Inr True, w6)"
    and c6: "stdin w6 = [Line (ascii ''y'')]"
    by (auto simp: console_def)
  let ?p = "[S (ascii ''Remove this initialization script? [Y/n]: '')]"
  from c6 have i: "py_input ?p (print_all next_steps w6)
      = (Inr (ascii ''y''), (print ?p (print_all next_steps w6))\<lparr>stdin := []\<rparr>)"
    by (simp add: py_input_Line)
  obtain w8 where r5:
    "remove_self ((print ?p (print_all next_steps w6))\<lparr>stdin := []\<rparr>) = (Inr (), w8)"
    using remove_self_returns by blast
  have "main U w = (Inr 0, w8)"
    by (rule main_succeeds [OF e g p nd r1 r2 r3 r4 i nd r5])
  then show ?thesis by simp
qed

lemma session_fields:
  "stdin (session ls) = map Line ls" "fs (session ls) = template_files"
  "refused (session ls) = (\<lambda>c. None)"
  "stdin ((session ls)\<lparr>refused := r\<rparr>) = map Line ls"
  "fs ((session ls)\<lparr>refused := r\<rparr>) = template_files"
  "refused ((session ls)\<lparr>refused := r\<rparr>) = r"
  by (simp_all add: session_def)

text \<open>
  The same answers on the same files, on a machine where git works and on one where
  \<open>git init\<close> is refused: the first run returns 0, the second returns 1.
\<close>

theorem git_failure_exit_code_counterexample:
  "fst (main tables_0130 (session all_yes)) = Inr 0
   \<and> fst (main tables_0130 ((session all_yes)\<lparr>refused := no_git\<rparr>)) = Inr 1"
  using exit_0_all_yes [OF session_fields(1-3), where U = tables_0130]
    exit_1_without_git [OF session_fields(4-6), where U = tables_0130]
  by simp

text \<open>
  The run without the \<open>git\<close> executable reaches \<open>reinit_git\<close> with the answer \<open>y\<close> next
  on the terminal, in a world where git fails.
\<close>

theorem git_failure_fails_the_run_witness:
  "fst (main tables_0130 ((session all_yes)\<lparr>refused := no_git\<rparr>)) = Inr 1
   \<and> fst (run_script tables_0130 ((session all_yes)\<lparr>refused := no_git\<rparr>)) = 1"
proof -
  let ?U = tables_0130
  let ?w = "(session all_yes)\<lparr>refused := no_git\<rparr>"
  from reach_all_yes [OF session_fields(4), where U = ?U]
  obtain w1 w2 where g: "get_user_input ?U ?w
       = (Inr (ascii ''my_genai_app'', ascii ''my-genai-app'', ascii ''Your Name'',
               ascii ''your.email@example.com''), w1)"
    and p: "py_input [S (ascii ''Proceed with these settings? [Y/n]: '')]
         (print_all (summary (ascii ''my_genai_app'') (ascii ''my-genai-app'') (ascii ''Your Name'')
                       (ascii ''your.email@example.com'')) w1)
       = (Inr (ascii ''y''), w2)"
    and s: "stdin w2 = [Line (ascii ''y''), Line (ascii ''y'')]"
    and m: "machine w2 = machine ?w"
    by blast
  have e: "exists ?w (Path (ascii ''pyproject.toml''))"
    by (simp add: exists_iff session_def no_git_def template_files_def Path_def ascii_def Let_def)
  have nd: "\<not> (lower ?U (strip ?U (ascii ''y'')) = ascii ''n''
      \<or> lower ?U (strip ?U (ascii ''y'')) = ascii ''no'')"
    using y_is_not_no by (simp add: lower_strip_y)
  let ?w2 = "print_all [[], [S (ascii ''Initializing template...'')], []] w2"
  from m have "refused ?w2 (Stat q) = None" for q
    by (simp add: machine_def session_def no_git_def)
  from steps_return [OF this, of "ascii ''template_package''" "ascii ''my_genai_app''" ?U
      "ascii ''my-genai-app''" "ascii ''Your Name''" "ascii ''your.email@example.com''"]
  obtain a b c w3 w4 w5 where
    r1: "rename_package (ascii ''template_package'') (ascii ''my_genai_app'') ?w2 = (Inr a, w3)"
    and r2: "update_pyproject_toml ?U (ascii ''my_genai_app'') (ascii ''my-genai-app'')
              (ascii ''Your Name'') (ascii ''your.email@example.com'') w3 = (Inr b, w4)"
    and r3: "update_package_init ?U (ascii ''my_genai_app'') w4 = (Inr c, w5)"
    and c5: "console w5 = console ?w2"
    by blast
  from c5 s m have s5: "stdin w5 = Line (ascii ''y'') # [Line (ascii ''y'')]"
    and f5: "refused w5 = no_git"
    by (simp_all add: console_def machine_def session_def)
  from f5 have gf: "git_fails w5"
    by (simp add: git_fails_def no_git_def)
  have y: "lower ?U (strip ?U (ascii ''y'')) = ascii ''y''
      \<or> lower ?U (strip ?U (ascii ''y'')) = ascii ''yes''"
    by (simp add: lower_strip_y)
  from git_failure_fails_the_run [OF e g p nd r1 r2 r3 s5 y gf]
  show ?thesis
    by auto
qed

section \<open>The matches of a class\<close>

text \<open>
  What \<open>re.sub\<close> does with the two kinds of pattern of the transformers: removing the
  matches of a class is a filter; replacing the runs of a class leaves no character of
  the class, and changes nothing where there is none.
\<close>

lemma rmatch_Set:
  "rmatch eq [Set Q] s = (case s of [] \<Rightarrow> None | c # cs \<Rightarrow> if Q c then Some 1 else None)"
  by (cases s) simp_all

lemma subx_Set: "subx (rmatch eq [Set Q]) (\<lambda>_. []) s = filter (\<lambda>c. \<not> Q c) s"
  by (induction s) simp_all

lemma rmatch_Set_plus:
  "rmatch eq [Set_plus Q] s
   = (if takeWhile Q s = [] then None else Some (length (takeWhile Q s)))"
  by (induction s) simp_all

lemma set_subx: "set (subx m (\<lambda>_. r) s) \<subseteq> set r \<union> set s"
proof (induction "length s" arbitrary: s rule: less_induct)
  case less
  show ?case
  proof (cases s)
    case Nil
    then show ?thesis by simp
  next
    case (Cons c cs)
    have 1: "set (subx m (\<lambda>_. r) cs) \<subseteq> set r \<union> set cs"
      using less [of cs] Cons by simp
    have 2: "set (subx m (\<lambda>_. r) (drop n cs)) \<subseteq> set r \<union> set cs" for n
    proof -
      have "length (drop n cs) < length s"
        using Cons by simp
      from less [OF this] set_drop_subset [of n cs] show ?thesis
        by blast
    qed
    from 1 2 Cons show ?thesis
      by (auto split: option.splits nat.splits)
  qed
qed

lemma subx_Set_plus_none:
  "\<forall>c\<in>set s. \<not> Q c \<Longrightarrow> subx (rmatch eq [Set_plus Q]) r s = s"
  by (induction s) (simp_all add: rmatch_Set_plus)

lemma subx_Set_plus_clears:
  assumes "\<forall>c\<in>set r. \<not> Q c"
  shows "\<forall>c\<in>set (subx (rmatch eq [Set_plus Q]) (\<lambda>_. r) s). \<not> Q c"
proof (induction "length s" arbitrary: s rule: less_induct)
  case less
  show ?case
  proof (cases s)
    case Nil
    then show ?thesis by simp
  next
    case (Cons c cs)
    show ?thesis
    proof (cases "Q c")
      case False
      with Cons less [of cs] show ?thesis
        by (simp add: rmatch_Set_plus)
    next
      case True
      have "length (drop (length (takeWhile Q cs)) cs) < length s"
        using Cons by simp
      from less [OF this] True Cons assms show ?thesis
        by (cases "takeWhile Q cs") (auto simp: rmatch_Set_plus)
    qed
  qed
qed

lemma rmatch_Ch_nonempty: "rmatch eq (Ch p # ps) s \<noteq> Some 0"
  by (cases s) auto

lemma patterns_nonempty:
  "rmatch eq [Set_plus Q] s \<noteq> Some 0"
  "rmatch eq [Set Q] s \<noteq> Some 0"
  "rmatch eq name_pattern s \<noteq> Some 0"
  "rmatch eq description_pattern s \<noteq> Some 0"
  "rmatch eq author_pattern s \<noteq> Some 0"
  "rmatch eq email_pattern s \<noteq> Some 0"
  by (simp_all add: rmatch_Set_plus rmatch_Set rmatch_Ch_nonempty name_pattern_def
      description_pattern_def author_pattern_def email_pattern_def ascii_def
      split: list.split)


section \<open>The outputs of the transformers\<close>

text \<open>
  On ASCII input the intermediate strings are ASCII, \<open>str.lower\<close> is the ASCII one, and
  the Unicode tables are never read.
\<close>

lemma is_ascii_subx:
  assumes "list_all is_ascii s" "list_all is_ascii r"
  shows "list_all is_ascii (subx m (\<lambda>_. r) s)"
  using assms set_subx [of m r s] by (auto simp: list_all_iff)

lemma snake_chars:
  assumes "list_all is_ascii s"
  shows "list_all identifier_char (to_snake_case U s)"
proof -
  let ?t = "subx (rmatch (=) [Set_plus (hyphen_or_space U)]) (\<lambda>_. ascii ''_'') s"
  have a: "list_all is_ascii ?t"
    using assms by (rule is_ascii_subx) (simp add: ascii_def is_ascii_def)
  then have b: "list_all is_ascii (filter (\<lambda>c. \<not> not_word U c) ?t)"
    by (simp add: list_all_iff)
  have "identifier_char (ascii_lower c)" if "is_ascii c" "\<not> not_word U c" for c
    using that by (auto simp: identifier_char_def not_word_def isword_def ascii_tables)
  with a b show ?thesis
    by (simp add: to_snake_case_def subx_Set lower_def list_all_iff)
qed

lemma kebab_chars:
  assumes "list_all is_ascii s"
  shows "list_all slug_char (to_kebab_case U s)"
proof -
  let ?t = "subx (rmatch (=) [Set_plus (underscore_or_space U)]) (\<lambda>_. ascii ''-'') s"
  have a: "list_all is_ascii ?t"
    using assms by (rule is_ascii_subx) (simp add: ascii_def is_ascii_def)
  then have b: "list_all is_ascii (filter (\<lambda>c. \<not> not_word_or_hyphen U c) ?t)"
    by (simp add: list_all_iff)
  have "\<forall>c\<in>set (ascii ''-''). \<not> underscore_or_space U c"
    by (simp add: ascii_def underscore_or_space_def isspace_def ascii_tables)
  then have c: "\<forall>c\<in>set ?t. \<not> underscore_or_space U c"
    by (rule subx_Set_plus_clears)
  have "slug_char (ascii_lower c)"
    if "is_ascii c" "\<not> not_word_or_hyphen U c" "\<not> underscore_or_space U c" for c
    using that
    by (auto simp: slug_char_def not_word_or_hyphen_def underscore_or_space_def isword_def
        ascii_tables)
  with a b c show ?thesis
    by (simp add: to_kebab_case_def subx_Set lower_def list_all_iff)
qed



text \<open>
  Whatever the tables, the output of a transformer is the lowercase of a string of
  word characters (and hyphens, for \<open>to_kebab_case\<close>) taken from the input and the
  separator; and a string of such characters that \<open>str.lower\<close> leaves as it is is left
  as it is by the transformer.
\<close>

lemma snake_stem:
  "\<exists>t. set t \<subseteq> insert 95 (set s) \<and> list_all (\<lambda>c. isword U c \<and> \<not> isspace U c) t
     \<and> to_snake_case U s = lower U t"
proof -
  let ?t = "subx (rmatch (=) [Set_plus (hyphen_or_space U)]) (\<lambda>_. ascii ''_'') s"
  have a: "set ?t \<subseteq> insert 95 (set s)"
    using set_subx [of "rmatch (=) [Set_plus (hyphen_or_space U)]" "ascii ''_''" s]
    by (simp add: ascii_def)
  have "\<forall>c\<in>set (ascii ''_''). \<not> hyphen_or_space U c"
    by (simp add: ascii_def hyphen_or_space_def isspace_def ascii_tables)
  then have c: "\<forall>c\<in>set ?t. \<not> hyphen_or_space U c"
    by (rule subx_Set_plus_clears)
  let ?u = "filter (\<lambda>c. \<not> not_word U c) ?t"
  from a have "set ?u \<subseteq> insert 95 (set s)"
    by auto
  moreover from c have "list_all (\<lambda>c. isword U c \<and> \<not> isspace U c) ?u"
    by (auto simp: list_all_iff not_word_def hyphen_or_space_def)
  moreover have "to_snake_case U s = lower U ?u"
    by (simp add: to_snake_case_def subx_Set)
  ultimately show ?thesis
    by blast
qed

lemma kebab_stem:
  "\<exists>t. set t \<subseteq> insert 45 (set s)
     \<and> list_all (\<lambda>c. (isword U c \<and> c \<noteq> 95 \<or> c = 45) \<and> \<not> isspace U c) t
     \<and> to_kebab_case U s = lower U t"
proof -
  let ?t = "subx (rmatch (=) [Set_plus (underscore_or_space U)]) (\<lambda>_. ascii ''-'') s"
  have a: "set ?t \<subseteq> insert 45 (set s)"
    using set_subx [of "rmatch (=) [Set_plus (underscore_or_space U)]" "ascii ''-''" s]
    by (simp add: ascii_def)
  have "\<forall>c\<in>set (ascii ''-''). \<not> underscore_or_space U c"
    by (simp add: ascii_def underscore_or_space_def isspace_def ascii_tables)
  then have c: "\<forall>c\<in>set ?t. \<not> underscore_or_space U c"
    by (rule subx_Set_plus_clears)
  let ?u = "filter (\<lambda>c. \<not> not_word_or_hyphen U c) ?t"
  from a have "set ?u \<subseteq> insert 45 (set s)"
    by auto
  moreover from c
  have "list_all (\<lambda>c. (isword U c \<and> c \<noteq> 95 \<or> c = 45) \<and> \<not> isspace U c) ?u"
    by (auto simp: list_all_iff not_word_or_hyphen_def underscore_or_space_def)
  moreover have "to_kebab_case U s = lower U ?u"
    by (simp add: to_kebab_case_def subx_Set)
  ultimately show ?thesis
    by blast
qed

lemma snake_fixed:
  assumes "list_all (\<lambda>c. isword U c \<and> \<not> isspace U c) t" and "lower U t = t"
  shows "to_snake_case U t = t"
proof -
  have "isword U c \<Longrightarrow> c \<noteq> 45" for c
    by (auto simp: isword_def ascii_tables)
  with assms(1) have 1: "\<forall>c\<in>set t. \<not> hyphen_or_space U c"
    by (auto simp: list_all_iff hyphen_or_space_def)
  have 2: "filter (\<lambda>c. \<not> not_word U c) t = t"
    using assms(1) by (auto simp: list_all_iff not_word_def intro: filter_True)
  from 1 2 assms(2) show ?thesis
    by (simp add: to_snake_case_def subx_Set subx_Set_plus_none)
qed

lemma kebab_fixed:
  assumes "list_all (\<lambda>c. (isword U c \<and> c \<noteq> 95 \<or> c = 45) \<and> \<not> isspace U c) t"
    and "lower U t = t"
  shows "to_kebab_case U t = t"
proof -
  have 1: "\<forall>c\<in>set t. \<not> underscore_or_space U c"
    using assms(1) by (auto simp: list_all_iff underscore_or_space_def)
  have 2: "filter (\<lambda>c. \<not> not_word_or_hyphen U c) t = t"
    using assms(1) by (auto simp: list_all_iff not_word_or_hyphen_def intro: filter_True)
  from 1 2 assms(2) show ?thesis
    by (simp add: to_kebab_case_def subx_Set subx_Set_plus_none)
qed

lemma lower_ascii: "list_all is_ascii t \<Longrightarrow> lower U t = map ascii_lower t"
  by (simp add: lower_def)

lemma lower_word_ascii:
  "is_ascii c \<Longrightarrow> lower_word U c \<longleftrightarrow> ascii_islower c \<or> ascii_isdigit c \<or> c = 95"
  by (auto simp: lower_word_def isword_def lower_def ascii_tables)

text \<open>
  So tables in which \<open>str.lower\<close> keeps strings of such characters as they are in
  kind, and changes nothing when applied twice, make the transformers idempotent on
  every input.
\<close>

lemma snake_idempotent_for_tables:
  assumes "\<And>t. list_all (\<lambda>c. isword U c \<and> \<not> isspace U c) t
    \<Longrightarrow> list_all (\<lambda>c. isword U c \<and> \<not> isspace U c) (lower U t)
      \<and> lower U (lower U t) = lower U t"
  shows "to_snake_case U (to_snake_case U s) = to_snake_case U s"
proof -
  obtain t where "list_all (\<lambda>c. isword U c \<and> \<not> isspace U c) t"
    "to_snake_case U s = lower U t"
    using snake_stem by blast
  with assms [of t] show ?thesis
    by (simp add: snake_fixed)
qed

lemma kebab_idempotent_for_tables:
  assumes "\<And>t. list_all (\<lambda>c. (isword U c \<and> c \<noteq> 95 \<or> c = 45) \<and> \<not> isspace U c) t
    \<Longrightarrow> list_all (\<lambda>c. (isword U c \<and> c \<noteq> 95 \<or> c = 45) \<and> \<not> isspace U c) (lower U t)
      \<and> lower U (lower U t) = lower U t"
  shows "to_kebab_case U (to_kebab_case U s) = to_kebab_case U s"
proof -
  obtain t where "list_all (\<lambda>c. (isword U c \<and> c \<noteq> 95 \<or> c = 45) \<and> \<not> isspace U c) t"
    "to_kebab_case U s = lower U t"
    using kebab_stem by blast
  with assms [of t] show ?thesis
    by (simp add: kebab_fixed)
qed



lemma lower_00e9: "lower tables_00e9 t = map lower_00c9 t"
  by (auto simp: lower_def tables_00e9_def lower_00c9_def list_all_iff is_ascii_def)




text \<open>
  C4. For every input and whatever the Unicode tables: if \<open>str.lower\<close> turns every
  string of word characters of the input (and underscores) into lowercase word
  characters, every character of the output of \<open>to_snake_case\<close> is a lowercase word
  character, the underscore being one; and if it turns every string of word characters
  of the input other than the underscore (and hyphens) into such characters and
  hyphens, every character of the output of \<open>to_kebab_case\<close> is a lowercase word
  character other than the underscore, or a hyphen. On every input of ASCII characters
  only, the outputs are made of lowercase ASCII letters, digits and the underscore,
  respectively the hyphen.
\<close>

theorem output_characters:
  "((\<forall>t. set t \<subseteq> insert 95 (set s) \<longrightarrow> list_all (isword U) t
          \<longrightarrow> list_all (lower_word U) (lower U t))
     \<longrightarrow> list_all (lower_word U) (to_snake_case U s))
   \<and> ((\<forall>t. set t \<subseteq> insert 45 (set s) \<longrightarrow> list_all (\<lambda>c. isword U c \<and> c \<noteq> 95 \<or> c = 45) t
          \<longrightarrow> list_all (\<lambda>c. lower_word U c \<and> c \<noteq> 95 \<or> c = 45) (lower U t))
     \<longrightarrow> list_all (\<lambda>c. lower_word U c \<and> c \<noteq> 95 \<or> c = 45) (to_kebab_case U s))
   \<and> (list_all is_ascii s
     \<longrightarrow> list_all identifier_char (to_snake_case U s) \<and> list_all slug_char (to_kebab_case U s))"
proof (intro conjI impI)
  assume h: "\<forall>t. set t \<subseteq> insert 95 (set s) \<longrightarrow> list_all (isword U) t
    \<longrightarrow> list_all (lower_word U) (lower U t)"
  obtain t where "set t \<subseteq> insert 95 (set s)" "list_all (\<lambda>c. isword U c \<and> \<not> isspace U c) t"
    "to_snake_case U s = lower U t"
    using snake_stem by blast
  with h show "list_all (lower_word U) (to_snake_case U s)"
    by (simp add: list_all_iff)
next
  assume h: "\<forall>t. set t \<subseteq> insert 45 (set s) \<longrightarrow> list_all (\<lambda>c. isword U c \<and> c \<noteq> 95 \<or> c = 45) t
    \<longrightarrow> list_all (\<lambda>c. lower_word U c \<and> c \<noteq> 95 \<or> c = 45) (lower U t)"
  obtain t where "set t \<subseteq> insert 45 (set s)"
    "list_all (\<lambda>c. (isword U c \<and> c \<noteq> 95 \<or> c = 45) \<and> \<not> isspace U c) t"
    "to_kebab_case U s = lower U t"
    using kebab_stem by blast
  with h show "list_all (\<lambda>c. lower_word U c \<and> c \<noteq> 95 \<or> c = 45) (to_kebab_case U s)"
    by (simp add: list_all_iff)
next
  assume "list_all is_ascii s"
  then show "list_all identifier_char (to_snake_case U s)"
    by (rule snake_chars)
next
  assume "list_all is_ascii s"
  then show "list_all slug_char (to_kebab_case U s)"
    by (rule kebab_chars)
qed

text \<open>
  Where \<open>str.lower\<close> does not do so, the output can hold a character that is not a word
  character: the combining mark that it makes out of U+0130.
\<close>

theorem output_characters_counterexample:
  "to_snake_case tables_0130 [0x130] = [0x69, 0x307]
   \<and> to_kebab_case tables_0130 [0x130] = [0x69, 0x307]
   \<and> \<not> isword tables_0130 0x307 \<and> (0x307 :: nat) \<noteq> 95 \<and> (0x307 :: nat) \<noteq> 45"
  by (simp add: to_snake_case_def to_kebab_case_def tables_0130_def lower_def char_classes
      ascii_tables ascii_def)

lemma set_cafe_ete: "set cafe_ete = {67, 97, 102, 233, 32, 201, 116}"
  by (auto simp: cafe_ete_def ascii_def)

lemma lower_word_00e9:
  assumes "c \<in> insert 95 (insert 45 (set cafe_ete))" "isword tables_00e9 c \<or> c = 45"
  shows "c \<noteq> 45 \<longrightarrow> lower_word tables_00e9 (lower_00c9 c)"
    and "c \<noteq> 95 \<longrightarrow> lower_00c9 c \<noteq> 95"
    and "c = 45 \<longrightarrow> lower_00c9 c = 45"
  using assms
  by (auto simp: set_cafe_ete lower_word_def lower_def isword_def ascii_tables tables_00e9_def
      lower_00c9_def)

lemma cafe_ete_lowers_words:
  "\<forall>t. set t \<subseteq> insert 95 (set cafe_ete) \<longrightarrow> list_all (isword tables_00e9) t
     \<longrightarrow> list_all (lower_word tables_00e9) (lower tables_00e9 t)"
proof (intro allI impI)
  fix t
  assume a: "set t \<subseteq> insert 95 (set cafe_ete)" "list_all (isword tables_00e9) t"
  have "lower_word tables_00e9 (lower_00c9 c)" if "c \<in> set t" for c
  proof -
    from that a have m: "c \<in> insert 95 (insert 45 (set cafe_ete))"
      and w: "isword tables_00e9 c \<or> c = 45"
      by (auto simp: list_all_iff)
    from that a(2) have "c \<noteq> 45"
      by (auto simp: list_all_iff isword_def ascii_tables)
    with lower_word_00e9(1) [OF m w] show ?thesis
      by blast
  qed
  then show "list_all (lower_word tables_00e9) (lower tables_00e9 t)"
    by (simp add: lower_00e9 list_all_iff)
qed

lemma cafe_ete_lowers_slugs:
  "\<forall>t. set t \<subseteq> insert 45 (set cafe_ete)
     \<longrightarrow> list_all (\<lambda>c. isword tables_00e9 c \<and> c \<noteq> 95 \<or> c = 45) t
     \<longrightarrow> list_all (\<lambda>c. lower_word tables_00e9 c \<and> c \<noteq> 95 \<or> c = 45) (lower tables_00e9 t)"
proof (intro allI impI)
  fix t
  assume a: "set t \<subseteq> insert 45 (set cafe_ete)"
    "list_all (\<lambda>c. isword tables_00e9 c \<and> c \<noteq> 95 \<or> c = 45) t"
  have "lower_word tables_00e9 (lower_00c9 c) \<and> lower_00c9 c \<noteq> 95 \<or> lower_00c9 c = 45"
    if "c \<in> set t" for c
  proof -
    from that a have m: "c \<in> insert 95 (insert 45 (set cafe_ete))"
      and w: "isword tables_00e9 c \<or> c = 45" and u: "c \<noteq> 95 \<or> c = 45"
      by (auto simp: list_all_iff)
    from lower_word_00e9 [OF m w] u show ?thesis
      by blast
  qed
  then show "list_all (\<lambda>c. lower_word tables_00e9 c \<and> c \<noteq> 95 \<or> c = 45) (lower tables_00e9 t)"
    by (simp add: lower_00e9 list_all_iff)
qed

theorem output_characters_witness:
  "list_all (lower_word tables_00e9) (to_snake_case tables_00e9 cafe_ete)
   \<and> list_all (\<lambda>c. lower_word tables_00e9 c \<and> c \<noteq> 95 \<or> c = 45)
       (to_kebab_case tables_00e9 cafe_ete)
   \<and> list_all is_ascii (ascii ''R2-D2 & C_3PO'')
   \<and> list_all identifier_char (to_snake_case tables_00e9 (ascii ''R2-D2 & C_3PO''))
   \<and> list_all slug_char (to_kebab_case tables_00e9 (ascii ''R2-D2 & C_3PO''))"
  using output_characters [of cafe_ete tables_00e9]
    output_characters [of "ascii ''R2-D2 & C_3PO''" tables_00e9]
    cafe_ete_lowers_words cafe_ete_lowers_slugs
  by (simp add: ascii_def is_ascii_def)

section \<open>A backslash in what the user typed\<close>

text \<open>
  Where no suffix of the text starts with a match, \<open>re.sub\<close> returns the text as it is.
  So for values without a backslash, a file that has none of the four placeholders
  goes through the four substitutions unchanged.
\<close>

lemma subx_absent:
  assumes "\<And>t. suffix t s \<Longrightarrow> m t = None"
  shows "subx m r s = s"
  using assms
proof (induction s)
  case Nil
  show ?case by simp
next
  case (Cons c cs)
  have "m (c # cs) = None"
    by (rule Cons.prems) simp
  moreover have "subx m r cs = cs"
    by (rule Cons.IH) (simp add: Cons.prems suffix_ConsI)
  ultimately show ?case by simp
qed

lemma substitutions_absent:
  assumes "92 \<notin> set project_name" "92 \<notin> set author_name" "92 \<notin> set author_email"
    and "\<And>t. suffix t content \<Longrightarrow> rmatch (=) name_pattern t = None"
    and "\<And>t. suffix t content \<Longrightarrow> rmatch (ignorecase U) description_pattern t = None"
    and "\<And>t. suffix t content \<Longrightarrow> rmatch (=) author_pattern t = None"
    and "\<And>t. suffix t content \<Longrightarrow> rmatch (=) email_pattern t = None"
  shows "substitutions U project_name author_name author_email content = Inr content"
  using assms by (simp add: substitutions_plain subx_absent)

text \<open>
  A backslash in a value is another matter.
\<close>

lemma no_backslash_my_genai_app: "92 \<notin> set (ascii ''my-genai-app'')"
  by (simp add: ascii_def)

text \<open>
  C6. The replacement of each substitution is built from what the user typed and is
  compiled by \<open>re.sub\<close> as a replacement template. The file of the template has the
  placeholder \<open>name = "Your Name"\<close>; for the author \<open>CORP\jdoe\<close> the third substitution
  raises on the escape \<open>\j\<close>, \<open>update_pyproject_toml\<close> reports the failure and returns
  \<open>False\<close>, and nothing is written: the world is the one it found, with one more line
  printed.
\<close>

theorem backslash_in_author_name:
  "update_pyproject_toml tables_0130 (ascii ''my_genai_app'') (ascii ''my-genai-app'')
     (ascii ''CORP'' @ [92] @ ascii ''jdoe'') (ascii ''jdoe@example.com'') (session [])
   = (Inr False,
      print [S (cross @ ascii '' Failed to update pyproject.toml: ''),
             E (TemplateError (ascii ''bad escape''))] (session []))"
proof -
  have "substitutions tables_0130 (ascii ''my-genai-app'') (ascii ''CORP'' @ [92] @ ascii ''jdoe'')
      (ascii ''jdoe@example.com'') pyproject_text = Inl (TemplateError (ascii ''bad escape''))"
    unfolding substitutions_def
    by (simp add: re_sub_plain no_backslash_ascii no_backslash_my_genai_app)
       (simp add: re_sub_def ascii_def prepend_def escapes_def ascii_isdigit_def ascii_isupper_def
         ascii_islower_def)
  moreover have "exists (session []) (Path (ascii ''pyproject.toml''))"
    by (rule exists_pyproject)
  moreover have "read_text (Path (ascii ''pyproject.toml'')) (session [])
      = (Inr pyproject_text, session [])"
  proof -
    have "map_of (fs (session [])) (Path (ascii ''pyproject.toml'')) = Some (File pyproject_text)"
      by (simp add: session_def template_files_def Path_def ascii_def Let_def)
    moreover have "refused (session []) (Read_text (Path (ascii ''pyproject.toml''))) = None"
      by (simp add: session_def)
    ultimately show ?thesis
      by (simp add: read_text_def pyproject_text_newlines)
  qed
  ultimately show ?thesis
    by (simp add: update_pyproject_toml_def Let_def is_Exception_def Path_exists_True)
qed

end
